theory Spec2Isabelle
  imports Complex_Main "HOL-Library.Word" "HOL-Library.Multiset" "HOL-Library.Sublist"
begin

section \<open>Go's float64: IEEE 754 binary64 values and correctly rounded operations\<close>

text \<open>
  A float64 is a finite binary64 number, a negative zero, an infinity or a NaN. A finite
  number is carried by its exact rational value (\<open>Fin 0\<close> is the positive zero); the result
  of an arithmetic operation is the exact rational result rounded to the nearest binary64
  number, ties to even, each operation rounded on its own (no fused multiply-add).
\<close>

datatype f64 = Fin rat | NegZero | PInf | NInf | NaN

function bitlen :: "int \<Rightarrow> int" where
  "bitlen n = (if n \<le> 0 then 0 else 1 + bitlen (n div 2))"
  by pat_completeness auto
termination
  by (relation "measure nat") auto

declare bitlen.simps [simp del]

definition pow2 :: "int \<Rightarrow> rat" where
  "pow2 e = (if 0 \<le> e then 2 ^ nat e else 1 / 2 ^ nat (- e))"

text \<open>
  \<open>ilog2 a\<close> is the exponent \<open>d\<close> with \<open>2^d \<le> a < 2^(d+1)\<close>, for \<open>a > 0\<close>: the bit length
  of the integer part of \<open>a\<close> (or of \<open>1 / a\<close>) gives it up to one, and a comparison settles it.
\<close>

definition ilog2_est :: "rat \<Rightarrow> int" where
  "ilog2_est a = (if 1 \<le> a then bitlen \<lfloor>a\<rfloor> - 1 else 1 - bitlen \<lfloor>1 / a\<rfloor>)"

definition ilog2 :: "rat \<Rightarrow> int" where
  "ilog2 a = (if pow2 (ilog2_est a) \<le> a then ilog2_est a else ilog2_est a - 1)"

definition round_half_even :: "rat \<Rightarrow> int" where
  "round_half_even q =
     (if q - of_int \<lfloor>q\<rfloor> < 1 / 2 then \<lfloor>q\<rfloor>
      else if 1 / 2 < q - of_int \<lfloor>q\<rfloor> then \<lfloor>q\<rfloor> + 1
      else if even \<lfloor>q\<rfloor> then \<lfloor>q\<rfloor> else \<lfloor>q\<rfloor> + 1)"

text \<open>
  Rounding of an exact result \<open>r\<close> of magnitude \<open>a\<close>: 53 significant bits, the exponent
  \<open>rnd_exp a\<close> of the last bit never below -1074 (subnormal numbers), the significand
  \<open>rnd_mant a\<close> rounded to the nearest integer, ties to even; overflow to an infinity when
  the rounded magnitude \<open>m * 2^e\<close> reaches \<open>2^1024\<close>, that is when \<open>e + bitlen m > 1024\<close>.
\<close>

definition rnd_exp :: "rat \<Rightarrow> int" where
  "rnd_exp a = max (ilog2 a - 52) (- 1074)"

definition rnd_mant :: "rat \<Rightarrow> int" where
  "rnd_mant a = round_half_even (a / pow2 (rnd_exp a))"

definition rnd :: "rat \<Rightarrow> f64" where
  "rnd r =
     (if r = 0 then Fin 0
      else if 1024 < rnd_exp \<bar>r\<bar> + bitlen (rnd_mant \<bar>r\<bar>) then (if r < 0 then NInf else PInf)
      else if rnd_mant \<bar>r\<bar> = 0 then (if r < 0 then NegZero else Fin 0)
      else Fin ((if r < 0 then - 1 else 1) * (of_int (rnd_mant \<bar>r\<bar>) * pow2 (rnd_exp \<bar>r\<bar>))))"

text \<open>A decimal literal or a parsed decimal string is the nearest float64.\<close>

definition f64_lit :: "rat \<Rightarrow> f64" where
  "f64_lit r = rnd r"

fun fval :: "f64 \<Rightarrow> rat" where
  "fval (Fin r) = r"
| "fval x = 0"

fun sign_bit :: "f64 \<Rightarrow> bool" where
  "sign_bit (Fin r) = (r < 0)"
| "sign_bit NegZero = True"
| "sign_bit NInf = True"
| "sign_bit x = False"

fun is_zero :: "f64 \<Rightarrow> bool" where
  "is_zero (Fin r) = (r = 0)"
| "is_zero NegZero = True"
| "is_zero x = False"

fun is_inf :: "f64 \<Rightarrow> bool" where
  "is_inf PInf = True"
| "is_inf NInf = True"
| "is_inf x = False"

definition signed_zero :: "bool \<Rightarrow> f64" where
  "signed_zero s = (if s then NegZero else Fin 0)"

definition signed_inf :: "bool \<Rightarrow> f64" where
  "signed_inf s = (if s then NInf else PInf)"

fun f64_neg :: "f64 \<Rightarrow> f64" where
  "f64_neg (Fin r) = (if r = 0 then NegZero else Fin (- r))"
| "f64_neg NegZero = Fin 0"
| "f64_neg PInf = NInf"
| "f64_neg NInf = PInf"
| "f64_neg NaN = NaN"

definition f64_add :: "f64 \<Rightarrow> f64 \<Rightarrow> f64" where
  "f64_add x y =
     (if x = NaN \<or> y = NaN then NaN
      else if is_inf x then (if is_inf y \<and> x \<noteq> y then NaN else x)
      else if is_inf y then y
      else if is_zero x \<and> is_zero y
        then (if x = NegZero \<and> y = NegZero then NegZero else Fin 0)
      else rnd (fval x + fval y))"

definition f64_sub :: "f64 \<Rightarrow> f64 \<Rightarrow> f64" where
  "f64_sub x y = f64_add x (f64_neg y)"

definition f64_mul :: "f64 \<Rightarrow> f64 \<Rightarrow> f64" where
  "f64_mul x y =
     (if x = NaN \<or> y = NaN then NaN
      else if (is_inf x \<and> is_zero y) \<or> (is_zero x \<and> is_inf y) then NaN
      else if is_inf x \<or> is_inf y then signed_inf (sign_bit x \<noteq> sign_bit y)
      else if is_zero x \<or> is_zero y then signed_zero (sign_bit x \<noteq> sign_bit y)
      else rnd (fval x * fval y))"

definition f64_div :: "f64 \<Rightarrow> f64 \<Rightarrow> f64" where
  "f64_div x y =
     (if x = NaN \<or> y = NaN then NaN
      else if (is_inf x \<and> is_inf y) \<or> (is_zero x \<and> is_zero y) then NaN
      else if is_inf x then signed_inf (sign_bit x \<noteq> sign_bit y)
      else if is_inf y then signed_zero (sign_bit x \<noteq> sign_bit y)
      else if is_zero y then signed_inf (sign_bit x \<noteq> sign_bit y)
      else if is_zero x then signed_zero (sign_bit x \<noteq> sign_bit y)
      else rnd (fval x / fval y))"

text \<open>Comparisons: every comparison with a NaN is false; the two zeros are equal.\<close>

fun f64_lt :: "f64 \<Rightarrow> f64 \<Rightarrow> bool" where
  "f64_lt NaN y = False"
| "f64_lt x NaN = False"
| "f64_lt x NInf = False"
| "f64_lt PInf y = False"
| "f64_lt NInf y = True"
| "f64_lt x PInf = True"
| "f64_lt x y = (fval x < fval y)"

fun f64_ge :: "f64 \<Rightarrow> f64 \<Rightarrow> bool" where
  "f64_ge NaN y = False"
| "f64_ge x NaN = False"
| "f64_ge x NInf = True"
| "f64_ge PInf y = True"
| "f64_ge NInf y = False"
| "f64_ge x PInf = False"
| "f64_ge x y = (fval y \<le> fval x)"

text \<open>\<open>math.Abs\<close>: Abs(\<plusminus>Inf) = +Inf, Abs(NaN) = NaN.\<close>

fun math_Abs :: "f64 \<Rightarrow> f64" where
  "math_Abs (Fin r) = Fin \<bar>r\<bar>"
| "math_Abs NegZero = Fin 0"
| "math_Abs PInf = PInf"
| "math_Abs NInf = PInf"
| "math_Abs NaN = NaN"

text \<open>
  \<open>math.Round\<close>: the nearest integer, halves away from zero; Round(\<plusminus>0) = \<plusminus>0,
  Round(\<plusminus>Inf) = \<plusminus>Inf, Round(NaN) = NaN. The nearest integer of a binary64 number is
  a binary64 number.
\<close>

definition round_half_away :: "rat \<Rightarrow> int" where
  "round_half_away r = (if 0 \<le> r then \<lfloor>r + 1 / 2\<rfloor> else - \<lfloor>- r + 1 / 2\<rfloor>)"

fun math_Round :: "f64 \<Rightarrow> f64" where
  "math_Round (Fin r) =
     (if round_half_away r = 0 then signed_zero (r < 0) else Fin (of_int (round_half_away r)))"
| "math_Round x = x"

text \<open>
  The conversion \<open>int(x)\<close> on a 64-bit platform discards the fraction. When the value is
  not representable (out of range, an infinity, a NaN) the conversion succeeds and its
  result is implementation-dependent: that result is the parameter \<open>oor\<close>.
  \<open>amd64_conv\<close> is the result on amd64, the most negative integer.
\<close>

definition trunc_zero :: "rat \<Rightarrow> int" where
  "trunc_zero r = (if 0 \<le> r then \<lfloor>r\<rfloor> else - \<lfloor>- r\<rfloor>)"

definition int_of_f64 :: "(f64 \<Rightarrow> 64 word) \<Rightarrow> f64 \<Rightarrow> 64 word" where
  "int_of_f64 oor x =
     (case x of
        Fin r \<Rightarrow>
          (if - (2 ^ 63) \<le> trunc_zero r \<and> trunc_zero r < 2 ^ 63 then word_of_int (trunc_zero r)
           else oor x)
      | NegZero \<Rightarrow> 0
      | PInf \<Rightarrow> oor x
      | NInf \<Rightarrow> oor x
      | NaN \<Rightarrow> oor x)"

definition amd64_conv :: "f64 \<Rightarrow> 64 word" where
  "amd64_conv x = word_of_int (- (2 ^ 63))"

text \<open>The conversion \<open>float64(n)\<close> of a 64-bit integer.\<close>

definition f64_of_int :: "64 word \<Rightarrow> f64" where
  "f64_of_int n = rnd (of_int (sint n))"

section \<open>The data model\<close>

record Stock =
  Ticker :: string
  Gap :: f64
  OpeningPrice :: f64

record Position =
  EntryPrice :: f64
  Shares :: "64 word"
  TakeProfitPrice :: f64
  StopLossPrice :: f64
  Profit :: f64

section \<open>The position sizer\<close>

definition accountBalance :: f64 where
  "accountBalance = f64_lit 10000"

definition lossTolerance :: f64 where
  "lossTolerance = f64_lit (2 / 10)"

definition maxLossPerTrade :: f64 where
  "maxLossPerTrade = f64_mul accountBalance lossTolerance"

definition profitPercent :: f64 where
  "profitPercent = f64_lit (8 / 10)"

definition Calculate :: "(f64 \<Rightarrow> 64 word) \<Rightarrow> f64 \<Rightarrow> f64 \<Rightarrow> Position" where
  "Calculate oor gapPercent openingPrice =
     (let closingPrice = f64_div openingPrice (f64_add (Fin 1) gapPercent);
          gapValue = f64_sub closingPrice openingPrice;
          profitFromGap = f64_mul profitPercent gapValue;
          stopLoss = f64_sub openingPrice profitFromGap;
          takeProfit = f64_add openingPrice profitFromGap;
          shares = int_of_f64 oor
                     (f64_div maxLossPerTrade (math_Abs (f64_sub stopLoss openingPrice)));
          profit = f64_mul (math_Abs (f64_sub openingPrice takeProfit)) (f64_of_int shares);
          profit = f64_div (math_Round (f64_mul profit (Fin 100))) (Fin 100)
      in \<lparr> EntryPrice = f64_div (math_Round (f64_mul openingPrice (Fin 100))) (Fin 100),
           Shares = shares,
           TakeProfitPrice = f64_div (math_Round (f64_mul takeProfit (Fin 100))) (Fin 100),
           StopLossPrice = f64_div (math_Round (f64_mul stopLoss (Fin 100))) (Fin 100),
           Profit = f64_div (math_Round (f64_mul profit (Fin 100))) (Fin 100) \<rparr>)"

text \<open>
  The values \<open>Calculate\<close> works on before the final rounding: the same expressions as the
  locals \<open>stopLoss\<close>, \<open>takeProfit\<close> and the quotient converted to \<open>shares\<close>.
\<close>

definition raw_profitFromGap :: "f64 \<Rightarrow> f64 \<Rightarrow> f64" where
  "raw_profitFromGap gapPercent openingPrice =
     f64_mul profitPercent
       (f64_sub (f64_div openingPrice (f64_add (Fin 1) gapPercent)) openingPrice)"

definition raw_stopLoss :: "f64 \<Rightarrow> f64 \<Rightarrow> f64" where
  "raw_stopLoss gapPercent openingPrice =
     f64_sub openingPrice (raw_profitFromGap gapPercent openingPrice)"

definition raw_takeProfit :: "f64 \<Rightarrow> f64 \<Rightarrow> f64" where
  "raw_takeProfit gapPercent openingPrice =
     f64_add openingPrice (raw_profitFromGap gapPercent openingPrice)"

definition risk_quotient :: "f64 \<Rightarrow> f64 \<Rightarrow> f64" where
  "risk_quotient gapPercent openingPrice =
     f64_div maxLossPerTrade
       (math_Abs (f64_sub (raw_stopLoss gapPercent openingPrice) openingPrice))"

definition round2 :: "f64 \<Rightarrow> f64" where
  "round2 x = f64_div (math_Round (f64_mul x (Fin 100))) (Fin 100)"

subsection \<open>The sizing algorithm in the words of the specification\<close>

text \<open>
  The specification's steps 1 to 6 over float64 values. The floor of step 5 is an
  unbounded integer, and it has no value when the quotient is an infinity or a NaN.
  Rounding to 2 decimals is \<open>round(x * 100) / 100\<close>.
\<close>

definition spec_round2 :: "f64 \<Rightarrow> f64" where
  "spec_round2 x = f64_div (math_Round (f64_mul x (Fin 100))) (Fin 100)"

definition maxRiskBudget :: f64 where
  "maxRiskBudget = f64_mul accountBalance lossTolerance"

definition spec_impliedPriorClose :: "f64 \<Rightarrow> f64 \<Rightarrow> f64" where
  "spec_impliedPriorClose gapPercent openingPrice =
     f64_div openingPrice (f64_add (Fin 1) gapPercent)"

definition spec_gapValue :: "f64 \<Rightarrow> f64 \<Rightarrow> f64" where
  "spec_gapValue gapPercent openingPrice =
     f64_sub (spec_impliedPriorClose gapPercent openingPrice) openingPrice"

definition spec_profitFromGap :: "f64 \<Rightarrow> f64 \<Rightarrow> f64" where
  "spec_profitFromGap gapPercent openingPrice =
     f64_mul profitPercent (spec_gapValue gapPercent openingPrice)"

definition spec_stopLossPrice :: "f64 \<Rightarrow> f64 \<Rightarrow> f64" where
  "spec_stopLossPrice gapPercent openingPrice =
     f64_sub openingPrice (spec_profitFromGap gapPercent openingPrice)"

definition spec_takeProfitPrice :: "f64 \<Rightarrow> f64 \<Rightarrow> f64" where
  "spec_takeProfitPrice gapPercent openingPrice =
     f64_add openingPrice (spec_profitFromGap gapPercent openingPrice)"

fun spec_floor :: "f64 \<Rightarrow> int option" where
  "spec_floor (Fin r) = Some \<lfloor>r\<rfloor>"
| "spec_floor NegZero = Some 0"
| "spec_floor x = None"

definition spec_shareCount :: "f64 \<Rightarrow> f64 \<Rightarrow> int option" where
  "spec_shareCount gapPercent openingPrice =
     spec_floor (f64_div maxRiskBudget
       (math_Abs (f64_sub (spec_stopLossPrice gapPercent openingPrice) openingPrice)))"

text \<open>
  The invariant the specification states for a TradePlan, over the plan's own (rounded)
  fields.
\<close>

definition plan_invariant :: "Position \<Rightarrow> bool" where
  "plan_invariant p =
     (spec_floor (f64_div maxRiskBudget (math_Abs (f64_sub (StopLossPrice p) (EntryPrice p))))
        = Some (sint (Shares p))
      \<and> Profit p
        = spec_round2 (f64_mul (math_Abs (f64_sub (EntryPrice p) (TakeProfitPrice p)))
            (f64_of_int (Shares p))))"

section \<open>Loading the screener export\<close>

text \<open>
  A goroutine either returns a value or panics. \<open>strconv.ParseFloat\<close> is the parameter
  \<open>pf\<close>: \<open>None\<close> when it returns an error. What \<open>os.Open\<close> and \<open>csv.Reader.ReadAll\<close>
  produce is the input of \<open>Load\<close>; the lines \<open>Load\<close> prints are left out.
\<close>

datatype 'a outcome = Panic | Return 'a

datatype err =
    ExternalError string
  | UnsuccessfulResponse int
  | CreatingFile err
  | EncodingSelections err

datatype read_outcome = OpenError err | ReadError err | Rows "string list list"

text \<open>\<open>slices.Delete(s, i, j)\<close> panics unless \<open>i \<le> j \<le> len(s)\<close>.\<close>

definition slices_Delete :: "'a list \<Rightarrow> nat \<Rightarrow> nat \<Rightarrow> 'a list outcome" where
  "slices_Delete s i j =
     (if i \<le> j \<and> j \<le> length s then Return (take i s @ drop j s) else Panic)"

fun load_rows :: "(string \<Rightarrow> f64 option) \<Rightarrow> string list list \<Rightarrow> Stock list \<Rightarrow> Stock list outcome"
  where
  "load_rows pf [] stocks = Return stocks"
| "load_rows pf (row # rows) stocks =
     (if length row \<le> 0 then Panic
      else if length row \<le> 1 then Panic
      else (case pf (row ! 1) of
              None \<Rightarrow> load_rows pf rows stocks
            | Some gap \<Rightarrow>
                (if length row \<le> 2 then Panic
                 else (case pf (row ! 2) of
                         None \<Rightarrow> load_rows pf rows stocks
                       | Some openingPrice \<Rightarrow>
                           load_rows pf rows
                             (stocks @ [\<lparr> Ticker = row ! 0, Gap = gap,
                                          OpeningPrice = openingPrice \<rparr>])))))"

definition Load :: "(string \<Rightarrow> f64 option) \<Rightarrow> read_outcome \<Rightarrow> (err + Stock list) outcome" where
  "Load pf src =
     (case src of
        OpenError e \<Rightarrow> Return (Inl e)
      | ReadError e \<Rightarrow> Return (Inl e)
      | Rows rows \<Rightarrow>
          (case slices_Delete rows 0 1 of
             Panic \<Rightarrow> Panic
           | Return rows' \<Rightarrow>
               (case load_rows pf rows' [] of
                  Panic \<Rightarrow> Panic
                | Return stocks \<Rightarrow> Return (Inr stocks))))"

text \<open>The stock a data row stands for, when its two numeric fields parse.\<close>

definition parse_row :: "(string \<Rightarrow> f64 option) \<Rightarrow> string list \<Rightarrow> Stock option" where
  "parse_row pf row =
     (case pf (row ! 1) of
        None \<Rightarrow> None
      | Some gap \<Rightarrow>
          (case pf (row ! 2) of
             None \<Rightarrow> None
           | Some openingPrice \<Rightarrow>
               Some \<lparr> Ticker = row ! 0, Gap = gap, OpeningPrice = openingPrice \<rparr>))"

text \<open>A data row on which the loop of \<open>Load\<close> indexes out of range.\<close>

definition bad_row :: "(string \<Rightarrow> f64 option) \<Rightarrow> string list \<Rightarrow> bool" where
  "bad_row pf row = (length row < 2 \<or> (length row = 2 \<and> pf (row ! 1) \<noteq> None))"

section \<open>The candidate filter\<close>

text \<open>\<open>slices.DeleteFunc(s, del)\<close> removes the elements for which \<open>del\<close> is true.\<close>

definition slices_DeleteFunc :: "'a list \<Rightarrow> ('a \<Rightarrow> bool) \<Rightarrow> 'a list" where
  "slices_DeleteFunc s del = filter (\<lambda>x. \<not> del x) s"

definition unworthy :: "Stock \<Rightarrow> bool" where
  "unworthy s = f64_lt (math_Abs (Gap s)) (f64_lit (1 / 10))"

definition filter_stocks :: "Stock list \<Rightarrow> Stock list" where
  "filter_stocks stocks = slices_DeleteFunc stocks unworthy"

text \<open>The filter in the words of the specification: the rows with \<open>|gapPercent| \<ge> 0.10\<close>.\<close>

definition gap_at_least_threshold :: "Stock \<Rightarrow> bool" where
  "gap_at_least_threshold s = f64_ge (math_Abs (Gap s)) (f64_lit (1 / 10))"

definition spec_filter :: "Stock list \<Rightarrow> Stock list" where
  "spec_filter rows = filter gap_at_least_threshold rows"

definition gap_is_NaN :: "Stock \<Rightarrow> bool" where
  "gap_is_NaN s = (Gap s = NaN)"

definition nan_row :: Stock where
  "nan_row = \<lparr> Ticker = ''XYZ'', Gap = NaN, OpeningPrice = Fin 100 \<rparr>"

section \<open>The news lookup\<close>

type_synonym time = int

record Attributes =
  publishOn :: time
  title :: string

record SeekingAlphaNews =
  attributes :: Attributes

record SeekingAlphaResponse =
  Data :: "SeekingAlphaNews list"

record Article =
  PublishOn :: time
  Headline :: string

record Response =
  StatusCode :: int
  Body :: string

text \<open>
  The network and the JSON decoder are parameters: \<open>http_NewRequest u\<close> is the error of
  \<open>http.NewRequest\<close> for the address \<open>u\<close>, if any; \<open>client_Do u h\<close> is what \<open>client.Do\<close>
  returns for the request to \<open>u\<close> with the header \<open>h\<close>; \<open>json_Decode b\<close> is what \<open>Decode\<close>
  leaves in \<open>res\<close> for the body \<open>b\<close>, with the error it returns, if any.
\<close>

record http_env =
  url :: string
  apiKeyHeader :: string
  apiKey :: string
  http_NewRequest :: "string \<Rightarrow> err option"
  client_Do :: "string \<Rightarrow> string \<times> string \<Rightarrow> err + Response"
  json_Decode :: "string \<Rightarrow> SeekingAlphaResponse \<times> err option"

definition to_article :: "SeekingAlphaNews \<Rightarrow> Article" where
  "to_article item =
     \<lparr> PublishOn = publishOn (attributes item), Headline = title (attributes item) \<rparr>"

definition FetchNews :: "http_env \<Rightarrow> string \<Rightarrow> err + Article list" where
  "FetchNews env ticker =
     (case http_NewRequest env (url env @ ticker) of
        Some e \<Rightarrow> Inl e
      | None \<Rightarrow>
          (case client_Do env (url env @ ticker) (apiKeyHeader env, apiKey env) of
             Inl e \<Rightarrow> Inl e
           | Inr resp \<Rightarrow>
               (if StatusCode resp < 200 \<or> StatusCode resp > 299
                then Inl (UnsuccessfulResponse (StatusCode resp))
                else Inr (map to_article (Data (fst (json_Decode env (Body resp))))))))"

section \<open>The fan-out and the collection of the results\<close>

record Selection =
  SelTicker :: string
  SelPosition :: Position
  Articles :: "Article list"

datatype line =
    PrintErr err
  | ErrorLoadingNews string err
  | FoundArticles nat string
  | ErrorWritingOutput err
  | FinishedWriting string

text \<open>The body of the goroutine started for a stock: the lines it prints and the
  selection it sends on the channel.\<close>

definition task_articles :: "http_env \<Rightarrow> Stock \<Rightarrow> Article list" where
  "task_articles env s = (case FetchNews env (Ticker s) of Inl e \<Rightarrow> [] | Inr as \<Rightarrow> as)"

definition task_lines :: "http_env \<Rightarrow> Stock \<Rightarrow> line list" where
  "task_lines env s =
     (case FetchNews env (Ticker s) of
        Inl e \<Rightarrow> [ErrorLoadingNews (Ticker s) e]
      | Inr as \<Rightarrow> [])
     @ [FoundArticles (length (task_articles env s)) (Ticker s)]"

definition task_selection :: "(f64 \<Rightarrow> 64 word) \<Rightarrow> http_env \<Rightarrow> Stock \<Rightarrow> Selection" where
  "task_selection oor env s =
     \<lparr> SelTicker = Ticker s,
       SelPosition = Calculate oor (Gap s) (OpeningPrice s),
       Articles = task_articles env s \<rparr>"

definition task :: "(f64 \<Rightarrow> 64 word) \<Rightarrow> http_env \<Rightarrow> Stock \<Rightarrow> line list \<times> Selection" where
  "task oor env s = (task_lines env s, task_selection oor env s)"

text \<open>
  The loop of the main goroutine over the channel. \<open>pending\<close> holds, in the order of
  their arrival, the values that the goroutines send; no other value is ever sent. With
  nothing pending the receive ends the loop when the channel is closed, and blocks for
  ever otherwise: every goroutine is then asleep and the runtime stops the program.
  Closing a closed channel panics.
\<close>

datatype 'a collected = Done 'a | Deadlock | ClosePanic

fun collect :: "nat \<Rightarrow> Selection list \<Rightarrow> bool \<Rightarrow> Selection list \<Rightarrow> Selection list collected"
  where
  "collect n [] chan_closed selections = (if chan_closed then Done selections else Deadlock)"
| "collect n (sel # pending) chan_closed selections =
     (if length (selections @ [sel]) = n
      then (if chan_closed then ClosePanic else collect n pending True (selections @ [sel]))
      else collect n pending chan_closed (selections @ [sel]))"

section \<open>Writing the result and the whole run\<close>

record fs_env =
  os_Create :: "string \<Rightarrow> err option"
  json_Encode :: "Selection list \<Rightarrow> err option"

definition Deliver :: "fs_env \<Rightarrow> string \<Rightarrow> Selection list \<Rightarrow> err option" where
  "Deliver fs filePath selections =
     (case os_Create fs filePath of
        Some e \<Rightarrow> Some (CreatingFile e)
      | None \<Rightarrow>
          (case json_Encode fs selections of
             Some e \<Rightarrow> Some (EncodingSelections e)
           | None \<Rightarrow> None))"

text \<open>
  A run of \<open>main\<close>: the lines printed, the exit status of the process (0 when \<open>main\<close>
  returns, 2 when the runtime stops the program on a panic or on a deadlock it detects;
  a build in which the runtime does not detect the deadlock hangs instead), and the call
  of \<open>Deliver\<close>, if it is reached: its batch and what it returned. The order in which the
  goroutines' values arrive is the parameter \<open>arrival\<close>, a rearrangement of the tasks'
  results; their lines are listed in that order, each task's lines together (the
  goroutines may interleave them; the theorems use only which lines are printed).
\<close>

record world =
  ParseFloat :: "string \<Rightarrow> f64 option"
  opg_csv :: read_outcome
  conv :: "f64 \<Rightarrow> 64 word"
  http :: http_env
  arrival :: "(line list \<times> Selection) list \<Rightarrow> (line list \<times> Selection) list"
  fs :: fs_env

record run =
  stdout :: "line list"
  status :: nat
  delivered :: "(Selection list \<times> err option) option"

definition outputPath :: string where
  "outputPath = ''./opg.json''"

definition main_deliver :: "world \<Rightarrow> line list \<Rightarrow> Selection list \<Rightarrow> run" where
  "main_deliver w printed selections =
     (case Deliver (fs w) outputPath selections of
        Some e \<Rightarrow>
          \<lparr> stdout = printed @ [ErrorWritingOutput e], status = 0,
            delivered = Some (selections, Some e) \<rparr>
      | None \<Rightarrow>
          \<lparr> stdout = printed @ [FinishedWriting outputPath], status = 0,
            delivered = Some (selections, None) \<rparr>)"

definition main_fan_out :: "world \<Rightarrow> Stock list \<Rightarrow> run" where
  "main_fan_out w stocks =
     (let arrived = arrival w (map (task (conv w) (http w)) stocks);
          printed = concat (map fst arrived)
      in case collect (length stocks) (map snd arrived) False [] of
           Done selections \<Rightarrow> main_deliver w printed selections
         | Deadlock \<Rightarrow> \<lparr> stdout = printed, status = 2, delivered = None \<rparr>
         | ClosePanic \<Rightarrow> \<lparr> stdout = printed, status = 2, delivered = None \<rparr>)"

definition main_go :: "world \<Rightarrow> run" where
  "main_go w =
     (case Load (ParseFloat w) (opg_csv w) of
        Panic \<Rightarrow> \<lparr> stdout = [], status = 2, delivered = None \<rparr>
      | Return (Inl e) \<Rightarrow> \<lparr> stdout = [PrintErr e, PrintErr e], status = 0, delivered = None \<rparr>
      | Return (Inr stocks) \<Rightarrow> main_fan_out w (filter_stocks stocks))"

subsection \<open>Concrete worlds\<close>

text \<open>
  Inputs on which the run is evaluated: a parser for the three numbers of the example
  rows, a server that refuses the connection, a server that answers with a body that is
  not JSON, a file system on which the output file cannot be created, and three screener
  exports.
\<close>

definition demo_ParseFloat :: "string \<Rightarrow> f64 option" where
  "demo_ParseFloat s =
     (if s = ''0.15'' then Some (f64_lit (15 / 100))
      else if s = ''0.05'' then Some (f64_lit (5 / 100))
      else if s = ''100'' then Some (Fin 100)
      else None)"

definition malformed_response :: Response where
  "malformed_response = \<lparr> StatusCode = 200, Body = ''<html>'' \<rparr>"

definition demo_Decode :: "string \<Rightarrow> SeekingAlphaResponse \<times> err option" where
  "demo_Decode b =
     (if b = ''{}'' then (\<lparr> Data = [] \<rparr>, None)
      else (\<lparr> Data = [] \<rparr>, Some (ExternalError ''invalid character'')))"

definition failing_http :: http_env where
  "failing_http =
     \<lparr> url = ''https://news.example/'', apiKeyHeader = ''X-Key'', apiKey = ''k'',
       http_NewRequest = (\<lambda>u. None),
       client_Do = (\<lambda>u h. Inl (ExternalError ''connection refused'')),
       json_Decode = demo_Decode \<rparr>"

definition malformed_http :: http_env where
  "malformed_http =
     \<lparr> url = ''https://news.example/'', apiKeyHeader = ''X-Key'', apiKey = ''k'',
       http_NewRequest = (\<lambda>u. None),
       client_Do = (\<lambda>u h. Inr malformed_response),
       json_Decode = demo_Decode \<rparr>"

definition failing_fs :: fs_env where
  "failing_fs =
     \<lparr> os_Create = (\<lambda>p. Some (ExternalError ''permission denied'')),
       json_Encode = (\<lambda>b. None) \<rparr>"

definition demo_rows :: "string list list" where
  "demo_rows = [[''Ticker'', ''Gap'', ''OpeningPrice''], [''XYZ'', ''0.15'', ''100'']]"

definition quiet_rows :: "string list list" where
  "quiet_rows = [[''Ticker'', ''Gap'', ''OpeningPrice''], [''ABC'', ''0.05'', ''100'']]"

definition two_column_rows :: "string list list" where
  "two_column_rows = [[''Ticker'', ''Gap''], [''XYZ'', ''n/a'']]"

definition demo_world :: world where
  "demo_world =
     \<lparr> ParseFloat = demo_ParseFloat, opg_csv = Rows demo_rows, conv = amd64_conv,
       http = failing_http, arrival = rev, fs = failing_fs \<rparr>"

definition quiet_world :: world where
  "quiet_world =
     \<lparr> ParseFloat = demo_ParseFloat, opg_csv = Rows quiet_rows, conv = amd64_conv,
       http = failing_http, arrival = rev, fs = failing_fs \<rparr>"

definition xyz_stock :: Stock where
  "xyz_stock = \<lparr> Ticker = ''XYZ'', Gap = f64_lit (15 / 100), OpeningPrice = Fin 100 \<rparr>"

definition abc_stock :: Stock where
  "abc_stock = \<lparr> Ticker = ''ABC'', Gap = f64_lit (5 / 100), OpeningPrice = Fin 100 \<rparr>"

section \<open>Evaluating float64 operations\<close>

text \<open>
  The operations are evaluated one at a time by rewriting with their definitions. The
  facts \<open>k_\<dots>\<close> are the constants of the source and of the examples, the facts \<open>s_\<dots>\<close> the
  steps of \<open>Calculate\<close> for gapPercent = 0.15 and openingPrice = 100 (and of the
  specification's invariant on the plan returned there), and the facts \<open>t_\<dots>\<close> the steps for
  gapPercent = 1 and openingPrice = 1e-18.
\<close>

lemma floor_rat_numeral_div: "\<lfloor>(numeral a :: rat) / numeral b\<rfloor> = numeral a div numeral b"
  using floor_divide_of_int_eq [of "numeral a" "numeral b", where ?'a = rat] by simp

lemmas f64_eval = f64_add_def f64_sub_def f64_mul_def f64_div_def f64_lit_def rnd_def rnd_exp_def
  rnd_mant_def ilog2_def ilog2_est_def round_half_even_def pow2_def bitlen.simps
  floor_rat_numeral_div signed_zero_def signed_inf_def round_half_away_def trunc_zero_def
  int_of_f64_def f64_of_int_def

lemma k_threshold:
  "f64_lit (1 / 10)
     = Fin (3602879701896397 / 36028797018963968)"
  by (simp add: f64_eval)

lemma k_lit015:
  "f64_lit (15 / 100)
     = Fin (5404319552844595 / 36028797018963968)"
  by (simp add: f64_eval)

lemma k_lit005:
  "f64_lit (5 / 100)
     = Fin (3602879701896397 / 72057594037927936)"
  by (simp add: f64_eval)

lemma k_accountBalance:
  "f64_lit 10000
     = Fin 10000"
  by (simp add: f64_eval)

lemma k_lossTolerance:
  "f64_lit (2 / 10)
     = Fin (3602879701896397 / 18014398509481984)"
  by (simp add: f64_eval)

lemma k_maxLoss:
  "f64_mul (Fin 10000) (Fin (3602879701896397 / 18014398509481984))
     = Fin 2000"
  by (simp add: f64_eval)

lemma k_profitPercent:
  "f64_lit (8 / 10)
     = Fin (3602879701896397 / 4503599627370496)"
  by (simp add: f64_eval)

lemma maxLossPerTrade_value: "maxLossPerTrade = Fin 2000"
  by (simp only: maxLossPerTrade_def accountBalance_def lossTolerance_def k_accountBalance
      k_lossTolerance k_maxLoss)

lemma maxRiskBudget_value: "maxRiskBudget = Fin 2000"
  by (simp only: maxRiskBudget_def accountBalance_def lossTolerance_def k_accountBalance
      k_lossTolerance k_maxLoss)

lemma profitPercent_value: "profitPercent = Fin (3602879701896397 / 4503599627370496)"
  by (simp only: profitPercent_def k_profitPercent)

lemma s_a1:
  "f64_add (Fin 1) (Fin (5404319552844595 / 36028797018963968))
     = Fin (2589569785738035 / 2251799813685248)"
  by (simp add: f64_eval)

lemma s_cp:
  "f64_div (Fin 100) (Fin (2589569785738035 / 2251799813685248))
     = Fin (1529755308210087 / 17592186044416)"
  by (simp add: f64_eval)

lemma s_gv:
  "f64_sub (Fin (1529755308210087 / 17592186044416)) (Fin 100)
     = Fin (- (229463296231513 / 17592186044416))"
  by (simp add: f64_eval)

lemma s_pfg:
  "f64_mul (Fin (3602879701896397 / 4503599627370496)) (Fin (- (229463296231513 / 17592186044416)))
     = Fin (- (5874260383526733 / 562949953421312))"
  by (simp add: f64_eval)

lemma s_sl:
  "f64_sub (Fin 100) (Fin (- (5874260383526733 / 562949953421312)))
     = Fin (3885578482853621 / 35184372088832)"
  by (simp add: f64_eval)

lemma s_tp:
  "f64_add (Fin 100) (Fin (- (5874260383526733 / 562949953421312)))
     = Fin (3151295934912779 / 35184372088832)"
  by (simp add: f64_eval)

lemma s_d1:
  "f64_sub (Fin (3885578482853621 / 35184372088832)) (Fin 100)
     = Fin (367141273970421 / 35184372088832)"
  by (simp add: f64_eval)

lemma s_q:
  "f64_div (Fin 2000) (math_Abs (Fin (367141273970421 / 35184372088832)))
     = Fin (6743671317026131 / 35184372088832)"
  by (simp add: f64_eval)

lemma s_sh:
  "int_of_f64 oor (Fin (6743671317026131 / 35184372088832))
     = 191"
  by (simp add: f64_eval)

lemma s_fs:
  "f64_of_int 191
     = Fin 191"
  by (simp add: f64_eval)

lemma s_d2:
  "f64_sub (Fin 100) (Fin (3151295934912779 / 35184372088832))
     = Fin (367141273970421 / 35184372088832)"
  by (simp add: f64_eval)

lemma s_pr:
  "f64_mul (math_Abs (Fin (367141273970421 / 35184372088832))) (Fin 191)
     = Fin (8765497916043801 / 4398046511104)"
  by (simp add: f64_eval)

lemma s_pr100:
  "f64_mul (Fin (8765497916043801 / 4398046511104)) (Fin 100)
     = Fin (1712011311727305 / 8589934592)"
  by (simp add: f64_eval)

lemma s_prR:
  "math_Round (Fin (1712011311727305 / 8589934592))
     = Fin 199304"
  by (simp add: f64_eval)

lemma s_pr2:
  "f64_div (Fin 199304) (Fin 100)
     = Fin (2191370654622679 / 1099511627776)"
  by (simp add: f64_eval)

lemma s_pr2x:
  "f64_mul (Fin (2191370654622679 / 1099511627776)) (Fin 100)
     = Fin 199304"
  by (simp add: f64_eval)

lemma s_pr2R:
  "math_Round (Fin 199304)
     = Fin 199304"
  by (simp add: f64_eval)

lemma s_pr3:
  "f64_div (Fin 199304) (Fin 100)
     = Fin (2191370654622679 / 1099511627776)"
  by (simp add: f64_eval)

lemma s_e100:
  "f64_mul (Fin 100) (Fin 100)
     = Fin 10000"
  by (simp add: f64_eval)

lemma s_eR:
  "math_Round (Fin 10000)
     = Fin 10000"
  by (simp add: f64_eval)

lemma s_e2:
  "f64_div (Fin 10000) (Fin 100)
     = Fin 100"
  by (simp add: f64_eval)

lemma s_tp100:
  "f64_mul (Fin (3151295934912779 / 35184372088832)) (Fin 100)
     = Fin (4923899898301217 / 549755813888)"
  by (simp add: f64_eval)

lemma s_tpR:
  "math_Round (Fin (4923899898301217 / 549755813888))
     = Fin 8957"
  by (simp add: f64_eval)

lemma s_tp2:
  "f64_div (Fin 8957) (Fin 100)
     = Fin (1575732103998341 / 17592186044416)"
  by (simp add: f64_eval)

lemma s_sl100:
  "f64_mul (Fin (3885578482853621 / 35184372088832)) (Fin 100)
     = Fin (6071216379458783 / 549755813888)"
  by (simp add: f64_eval)

lemma s_slR:
  "math_Round (Fin (6071216379458783 / 549755813888))
     = Fin 11043"
  by (simp add: f64_eval)

lemma s_sl2:
  "f64_div (Fin 11043) (Fin 100)
     = Fin (1942705104884859 / 17592186044416)"
  by (simp add: f64_eval)

lemma s_i1:
  "f64_sub (Fin (1942705104884859 / 17592186044416)) (Fin 100)
     = Fin (183486500443259 / 17592186044416)"
  by (simp add: f64_eval)

lemma s_i2:
  "f64_div (Fin 2000) (math_Abs (Fin (183486500443259 / 17592186044416)))
     = Fin (1686690895917161 / 8796093022208)"
  by (simp add: f64_eval)

lemma s_j1:
  "f64_sub (Fin 100) (Fin (1575732103998341 / 17592186044416))
     = Fin (183486500443259 / 17592186044416)"
  by (simp add: f64_eval)

lemma s_j2:
  "f64_mul (math_Abs (Fin (183486500443259 / 17592186044416))) (Fin 191)
     = Fin (8761480396165617 / 4398046511104)"
  by (simp add: f64_eval)

lemma s_j3:
  "f64_mul (Fin (8761480396165617 / 4398046511104)) (Fin 100)
     = Fin (1711226639876097 / 8589934592)"
  by (simp add: f64_eval)

lemma s_j4:
  "math_Round (Fin (1711226639876097 / 8589934592))
     = Fin 199213"
  by (simp add: f64_eval)

lemma s_j5:
  "f64_div (Fin 199213) (Fin 100)
     = Fin (2190370099041403 / 1099511627776)"
  by (simp add: f64_eval)

lemma t_o1:
  "f64_lit (1 / 10 ^ 18)
     = Fin (1298074214633707 / 1298074214633706907132624082305024)"
  by (simp add: f64_eval)

lemma t_a1:
  "f64_add (Fin 1) (Fin 1)
     = Fin 2"
  by (simp add: f64_eval)

lemma t_cp:
  "f64_div (Fin (1298074214633707 / 1298074214633706907132624082305024)) (Fin 2)
     = Fin (1298074214633707 / 2596148429267413814265248164610048)"
  by (simp add: f64_eval)

lemma t_gv:
  "f64_sub (Fin (1298074214633707 / 2596148429267413814265248164610048)) (Fin (1298074214633707 / 1298074214633706907132624082305024))
     = Fin (- (1298074214633707 / 2596148429267413814265248164610048))"
  by (simp add: f64_eval)

lemma t_pfg:
  "f64_mul (Fin (3602879701896397 / 4503599627370496)) (Fin (- (1298074214633707 / 2596148429267413814265248164610048)))
     = Fin (- (8307674973655725 / 20769187434139310514121985316880384))"
  by (simp add: f64_eval)

lemma t_sl:
  "f64_sub (Fin (1298074214633707 / 1298074214633706907132624082305024)) (Fin (- (8307674973655725 / 20769187434139310514121985316880384)))
     = Fin (7269215601948759 / 5192296858534827628530496329220096)"
  by (simp add: f64_eval)

lemma t_d1:
  "f64_sub (Fin (7269215601948759 / 5192296858534827628530496329220096)) (Fin (1298074214633707 / 1298074214633706907132624082305024))
     = Fin (2076918743413931 / 5192296858534827628530496329220096)"
  by (simp add: f64_eval)

lemma t_q:
  "f64_div (Fin 2000) (math_Abs (Fin (2076918743413931 / 5192296858534827628530496329220096)))
     = Fin 5000000000000000000000"
  by (simp add: f64_eval)


lemmas scenario_steps = k_lit015 profitPercent_value maxLossPerTrade_value maxRiskBudget_value
  s_a1 s_cp s_gv s_pfg s_sl s_tp s_d1 s_q s_sh s_fs s_d2 s_pr s_pr100 s_prR s_pr2 s_pr2x s_pr2R
  s_pr3 s_e100 s_eR s_e2 s_tp100 s_tpR s_tp2 s_sl100 s_slR s_sl2

lemma Calculate_scenario:
  "Calculate oor (f64_lit (15 / 100)) (Fin 100)
     = \<lparr> EntryPrice = Fin 100, Shares = 191,
         TakeProfitPrice = Fin (1575732103998341 / 17592186044416),
         StopLossPrice = Fin (1942705104884859 / 17592186044416),
         Profit = Fin (2191370654622679 / 1099511627776) \<rparr>"
  by (simp only: Calculate_def Let_def scenario_steps)

lemma round_half_even_nonneg: "0 \<le> q \<Longrightarrow> 0 \<le> round_half_even q"
  by (simp add: round_half_even_def)

lemma pow2_pos: "0 < pow2 e"
  by (simp add: pow2_def)

lemma rnd_mant_nonneg: "0 \<le> a \<Longrightarrow> 0 \<le> rnd_mant a"
  unfolding rnd_mant_def using pow2_pos [of "rnd_exp a"]
  by (intro round_half_even_nonneg) simp

lemma rnd_nonneg:
  assumes "0 \<le> r" and "rnd r = Fin v"
  shows "0 \<le> v"
proof (cases "r = 0")
  case True
  with assms show ?thesis by (simp add: rnd_def)
next
  case False
  with assms have pos: "0 < r" by simp
  have m: "0 \<le> rnd_mant \<bar>r\<bar>" by (rule rnd_mant_nonneg) simp
  from assms(2) False pos
  have "v = of_int (rnd_mant \<bar>r\<bar>) * pow2 (rnd_exp \<bar>r\<bar>)"
    by (simp add: rnd_def split: if_splits)
  with m pow2_pos [of "rnd_exp \<bar>r\<bar>"] show ?thesis by simp
qed

lemma quotient_nonneg:
  assumes "f64_div (Fin c) (math_Abs x) = Fin r" and "0 < c"
  shows "0 \<le> r"
proof (cases x)
  case (Fin a)
  show ?thesis
  proof (cases "a = 0")
    case True
    with assms Fin show ?thesis by (simp add: f64_div_def signed_inf_def split: if_splits)
  next
    case False
    with assms Fin have "rnd (c / \<bar>a\<bar>) = Fin r" by (simp add: f64_div_def)
    moreover from assms(2) have "0 \<le> c / \<bar>a\<bar>" by simp
    ultimately show ?thesis by (rule rnd_nonneg [rotated])
  qed
next
  case NegZero
  with assms show ?thesis by (simp add: f64_div_def signed_inf_def split: if_splits)
next
  case PInf
  with assms show ?thesis by (simp add: f64_div_def signed_zero_def split: if_splits)
next
  case NInf
  with assms show ?thesis by (simp add: f64_div_def signed_zero_def split: if_splits)
next
  case NaN
  with assms show ?thesis by (simp add: f64_div_def)
qed

lemma sint_word_of_int_small:
  assumes "0 \<le> t" and "t < 2 ^ 63"
  shows "sint (word_of_int t :: 64 word) = t"
  using assms by (simp add: signed_of_int signed_take_bit_int_eq_self)

lemma int_of_f64_floor:
  assumes "spec_floor q = Some n" and "n < 2 ^ 63" and "\<And>r. q = Fin r \<Longrightarrow> 0 \<le> r"
  shows "sint (int_of_f64 oor q) = n"
proof (cases q)
  case (Fin r)
  with assms(3) have r: "0 \<le> r" by simp
  from Fin assms(1) have n: "n = \<lfloor>r\<rfloor>" by simp
  with r have "0 \<le> n" by simp
  with n r assms(2) Fin show ?thesis
    by (simp add: int_of_f64_def trunc_zero_def sint_word_of_int_small)
next
  case NegZero
  with assms show ?thesis by (simp add: int_of_f64_def)
qed (use assms in simp_all)

section \<open>The rounding returns a nearest binary64 number\<close>

lemma rnd_one_third: "rnd (1 / 3) = Fin (6004799503160661 / 18014398509481984)"
  by (simp add: f64_eval)

lemma rnd_ties_to_even:
  "rnd (2 ^ 53 + 1) = Fin (2 ^ 53)" "rnd (2 ^ 53 + 3) = Fin (2 ^ 53 + 4)"
  by (simp_all add: f64_eval)

lemma bitlen_nonneg: "0 \<le> bitlen n"
  by (induction n rule: bitlen.induct) (subst bitlen.simps, simp)

lemma bitlen_pos: "0 < n \<Longrightarrow> 0 < bitlen n"
  using bitlen_nonneg [of "n div 2"] by (subst bitlen.simps) simp

lemma bitlen_bounds:
  "0 < n \<Longrightarrow> 2 ^ nat (bitlen n - 1) \<le> n \<and> n < 2 ^ nat (bitlen n)"
proof (induction n rule: bitlen.induct)
  case (1 n)
  show ?case
  proof (cases "n = 1")
    case True
    have "bitlen 1 = 1"
      by (subst bitlen.simps, simp, subst bitlen.simps, simp)
    with True show ?thesis by simp
  next
    case False
    with "1.prems" have half: "0 < n div 2" by simp
    with "1.IH" "1.prems"
    have ih: "2 ^ nat (bitlen (n div 2) - 1) \<le> n div 2" "n div 2 < 2 ^ nat (bitlen (n div 2))"
      by simp_all
    have bl: "bitlen n = 1 + bitlen (n div 2)"
      using "1.prems" by (subst bitlen.simps) simp
    from bitlen_pos [OF half] have nat1: "nat (bitlen n - 1) = Suc (nat (bitlen (n div 2) - 1))"
      unfolding bl by simp
    from bitlen_pos [OF half] have nat2: "nat (bitlen n) = Suc (nat (bitlen (n div 2)))"
      unfolding bl by simp
    from ih(1) have "2 * 2 ^ nat (bitlen (n div 2) - 1) \<le> n" by linarith
    moreover from ih(2) have "n < 2 * 2 ^ nat (bitlen (n div 2))" by linarith
    ultimately show ?thesis unfolding nat1 nat2 by simp
  qed
qed

lemma pow2_add: "pow2 (a + b) = pow2 a * pow2 b"
proof -
  have "pow2 e = 2 powi e" for e
    by (simp add: pow2_def power_int_def power_inverse inverse_eq_divide power_one_over)
  then show ?thesis by (simp add: power_int_add)
qed

lemma pow2_nat: "0 \<le> e \<Longrightarrow> pow2 e = 2 ^ nat e"
  by (simp add: pow2_def)

lemma pow2_neg: "pow2 (- e) = 1 / pow2 e"
  using pow2_add [of e "- e"] pow2_pos [of e] by (simp add: pow2_def field_simps)

lemma floor_bitlen_bounds:
  assumes "1 \<le> a"
  shows "pow2 (bitlen \<lfloor>a\<rfloor> - 1) \<le> a \<and> a < pow2 (bitlen \<lfloor>a\<rfloor>)"
proof -
  from assms have pos: "0 < \<lfloor>a\<rfloor>" by simp
  from bitlen_bounds [OF pos]
  have lo: "2 ^ nat (bitlen \<lfloor>a\<rfloor> - 1) \<le> \<lfloor>a\<rfloor>" and hi: "\<lfloor>a\<rfloor> < 2 ^ nat (bitlen \<lfloor>a\<rfloor>)"
    by simp_all
  from lo have "rat_of_int (2 ^ nat (bitlen \<lfloor>a\<rfloor> - 1)) \<le> rat_of_int \<lfloor>a\<rfloor>"
    by (simp only: of_int_le_iff)
  also have "\<dots> \<le> a" by simp
  finally have l: "pow2 (bitlen \<lfloor>a\<rfloor> - 1) \<le> a"
    using bitlen_pos [OF pos] by (simp add: pow2_nat)
  from hi have "\<lfloor>a\<rfloor> + 1 \<le> 2 ^ nat (bitlen \<lfloor>a\<rfloor>)" by simp
  then have "rat_of_int (\<lfloor>a\<rfloor> + 1) \<le> rat_of_int (2 ^ nat (bitlen \<lfloor>a\<rfloor>))"
    by (simp only: of_int_le_iff)
  moreover have "a < rat_of_int (\<lfloor>a\<rfloor> + 1)" by linarith
  ultimately have "a < pow2 (bitlen \<lfloor>a\<rfloor>)"
    using bitlen_nonneg [of "\<lfloor>a\<rfloor>"] by (simp add: pow2_nat)
  with l show ?thesis by simp
qed

lemma ilog2_bounds:
  assumes "0 < a"
  shows "pow2 (ilog2 a) \<le> a \<and> a < pow2 (ilog2 a + 1)"
proof (cases "1 \<le> a")
  case True
  from floor_bitlen_bounds [OF True] True show ?thesis
    by (simp add: ilog2_def ilog2_est_def)
next
  case False
  with assms have inv: "1 \<le> 1 / a" by simp
  let ?k = "bitlen \<lfloor>1 / a\<rfloor>"
  from floor_bitlen_bounds [OF inv]
  have lo: "pow2 (?k - 1) \<le> 1 / a" and hi: "1 / a < pow2 ?k" by simp_all
  have est: "ilog2_est a = 1 - ?k" using False by (simp add: ilog2_est_def)
  from hi assms pow2_pos [of ?k] have "1 / pow2 ?k < a"
    by (simp add: field_simps)
  then have low: "pow2 (- ?k) < a" by (simp add: pow2_neg)
  from lo assms pow2_pos [of "?k - 1"] have "a \<le> 1 / pow2 (?k - 1)"
    by (simp add: field_simps)
  then have up: "a \<le> pow2 (1 - ?k)" using pow2_neg [of "?k - 1"] by simp
  have up2: "pow2 (1 - ?k) < pow2 (1 - ?k + 1)"
    using pow2_add [of "1 - ?k" 1] pow2_pos [of "1 - ?k"] by (simp add: pow2_def)
  show ?thesis
  proof (cases "pow2 (1 - ?k) \<le> a")
    case True
    with up up2 show ?thesis by (simp add: ilog2_def est)
  next
    case False
    then have "ilog2 a = - ?k" by (simp add: ilog2_def est)
    with low False show ?thesis by simp
  qed
qed

lemma round_half_even_near: "\<bar>of_int (round_half_even q) - q\<bar> \<le> 1 / 2"
proof -
  define f where "f = \<lfloor>q\<rfloor>"
  have "of_int f \<le> q" and "q < of_int f + 1" unfolding f_def by linarith+
  then show ?thesis unfolding round_half_even_def f_def [symmetric] by (auto simp: abs_if)
qed

text \<open>
  A finite result of the rounding is a multiple \<open>m * 2^e\<close> of the unit in the last place,
  with \<open>m \<le> 2^53\<close> and \<open>e \<ge> -1074\<close>, below \<open>2^1024\<close> in magnitude, and at most half a unit
  away from the exact value.
\<close>

lemma rnd_mant_bound: "0 < a \<Longrightarrow> rnd_mant a \<le> 2 ^ 53"
proof -
  assume pos: "0 < a"
  let ?e = "rnd_exp a"
  have "ilog2 a - 52 \<le> ?e" by (simp add: rnd_exp_def)
  then obtain d where d: "?e = ilog2 a - 52 + d" "0 \<le> d"
    by (metis add.commute diff_add_cancel diff_ge_0_iff_ge)
  from ilog2_bounds [OF pos] have "a < pow2 (ilog2 a + 1)" by simp
  also have "ilog2 a + 1 = ?e + (53 - d)" using d by simp
  also have "pow2 (?e + (53 - d)) = pow2 ?e * pow2 (53 - d)" by (rule pow2_add)
  finally have "a / pow2 ?e < pow2 (53 - d)"
    using pow2_pos [of ?e] by (simp add: field_simps)
  also have "pow2 (53 - d) \<le> pow2 53"
  proof -
    have "pow2 53 = pow2 (53 - d) * pow2 d" using pow2_add [of "53 - d" d] by simp
    moreover have "1 \<le> pow2 d" using d(2) by (simp add: pow2_nat)
    ultimately show ?thesis using pow2_pos [of "53 - d"] by simp
  qed
  finally have q: "a / pow2 ?e < 2 ^ 53" by (simp add: pow2_def)
  have "rat_of_int (rnd_mant a) \<le> a / pow2 ?e + 1 / 2"
    using round_half_even_near [of "a / pow2 ?e"] unfolding rnd_mant_def by linarith
  with q have "rat_of_int (rnd_mant a) < 2 ^ 53 + 1" by linarith
  then have "rat_of_int (rnd_mant a) < rat_of_int (2 ^ 53 + 1)" by simp
  then have "rnd_mant a < 2 ^ 53 + 1" by (simp only: of_int_less_iff)
  then show ?thesis by simp
qed

lemma rnd_nearest:
  assumes "rnd r = Fin v"
  shows "\<exists>m e. v = of_int m * pow2 e \<and> \<bar>m\<bar> \<le> 2 ^ 53 \<and> - 1074 \<le> e
             \<and> \<bar>v - r\<bar> \<le> pow2 e / 2"
proof (cases "r = 0")
  case True
  with assms have "v = 0" by (simp add: rnd_def)
  with True pow2_pos [of 0] show ?thesis
    by (intro exI [of _ 0]) simp
next
  case False
  define a where "a = \<bar>r\<bar>"
  define e where "e = rnd_exp a"
  define m where "m = rnd_mant a"
  define s :: int where "s = (if r < 0 then - 1 else 1)"
  from False have pos: "0 < a" by (simp add: a_def)
  from assms False have v: "v = of_int (s * m) * pow2 e"
    by (simp add: rnd_def a_def e_def m_def s_def split: if_splits)
  have m0: "0 \<le> m" unfolding m_def by (rule rnd_mant_nonneg) (simp add: a_def)
  have m1: "m \<le> 2 ^ 53" unfolding m_def by (rule rnd_mant_bound [OF pos])
  have e: "- 1074 \<le> e" by (simp add: e_def rnd_exp_def)
  have p: "0 < pow2 e" by (rule pow2_pos)
  have "\<bar>of_int m - a / pow2 e\<bar> \<le> 1 / 2"
    unfolding m_def rnd_mant_def e_def by (rule round_half_even_near)
  then have "\<bar>of_int m - a / pow2 e\<bar> * pow2 e \<le> 1 / 2 * pow2 e"
    using p by (simp only: mult_le_cancel_right_pos)
  moreover have "\<bar>of_int m - a / pow2 e\<bar> * pow2 e = \<bar>of_int m * pow2 e - a\<bar>"
  proof -
    have "\<bar>of_int m - a / pow2 e\<bar> * pow2 e = \<bar>(of_int m - a / pow2 e) * pow2 e\<bar>"
      using p by (simp add: abs_mult)
    also have "(of_int m - a / pow2 e) * pow2 e = of_int m * pow2 e - a"
      using p by (simp add: field_simps)
    finally show ?thesis .
  qed
  ultimately have near: "\<bar>of_int m * pow2 e - a\<bar> \<le> pow2 e / 2" by simp
  have "\<bar>v - r\<bar> = \<bar>of_int m * pow2 e - a\<bar>"
  proof (cases "r < 0")
    case True
    then have "v - r = - (of_int m * pow2 e - a)" by (simp add: v s_def a_def)
    then show ?thesis by simp
  next
    case False
    then have "v - r = of_int m * pow2 e - a" by (simp add: v s_def a_def)
    then show ?thesis by simp
  qed
  with near have "\<bar>v - r\<bar> \<le> pow2 e / 2" by simp
  moreover from m0 m1 have "\<bar>s * m\<bar> \<le> 2 ^ 53" by (simp add: abs_mult s_def)
  ultimately show ?thesis using v e by blast
qed

lemma pow2_mono: "a \<le> b \<Longrightarrow> pow2 a \<le> pow2 b"
proof -
  assume "a \<le> b"
  then have "1 \<le> pow2 (b - a)" by (simp add: pow2_nat)
  moreover have "pow2 b = pow2 a * pow2 (b - a)" using pow2_add [of a "b - a"] by simp
  ultimately show ?thesis using pow2_pos [of a] by simp
qed

lemma rnd_below_overflow:
  assumes "rnd r = Fin v"
  shows "\<bar>v\<bar> < pow2 1024"
proof (cases "r = 0")
  case True
  with assms have "v = 0" by (simp add: rnd_def)
  then show ?thesis using pow2_pos [of 1024] by simp
next
  case False
  define a where "a = \<bar>r\<bar>"
  define e where "e = rnd_exp a"
  define m where "m = rnd_mant a"
  from assms False have fits: "e + bitlen m \<le> 1024"
    by (simp add: rnd_def a_def e_def m_def split: if_splits)
  from assms False have v: "\<bar>v\<bar> = \<bar>of_int m * pow2 e\<bar>"
    by (auto simp: rnd_def a_def e_def m_def split: if_splits)
  have m0: "0 \<le> m" unfolding m_def by (rule rnd_mant_nonneg) (simp add: a_def)
  have p: "0 < pow2 e" by (rule pow2_pos)
  show ?thesis
  proof (cases "m = 0")
    case True
    with v show ?thesis using pow2_pos [of 1024] by simp
  next
    case False
    with m0 have pos: "0 < m" by simp
    from bitlen_bounds [OF pos] have "m < 2 ^ nat (bitlen m)" by simp
    then have "rat_of_int m < rat_of_int (2 ^ nat (bitlen m))" by (simp only: of_int_less_iff)
    then have "rat_of_int m < pow2 (bitlen m)"
      using bitlen_nonneg [of m] by (simp add: pow2_nat)
    with p have "rat_of_int m * pow2 e < pow2 (bitlen m) * pow2 e" by simp
    also have "\<dots> = pow2 (e + bitlen m)" using pow2_add [of "bitlen m" e] by (simp add: ac_simps)
    also have "\<dots> \<le> pow2 1024" using fits by (rule pow2_mono)
    finally have "rat_of_int m * pow2 e < pow2 1024" .
    moreover from m0 p have "0 \<le> rat_of_int m * pow2 e" by simp
    ultimately show ?thesis using v by simp
  qed
qed

section \<open>The position sizer against the specification\<close>

lemma spec_quotient_eq:
  "f64_div maxRiskBudget
     (math_Abs (f64_sub (spec_stopLossPrice gapPercent openingPrice) openingPrice))
   = risk_quotient gapPercent openingPrice"
  by (simp add: risk_quotient_def raw_stopLoss_def raw_profitFromGap_def spec_stopLossPrice_def
      spec_profitFromGap_def spec_gapValue_def spec_impliedPriorClose_def maxRiskBudget_def
      maxLossPerTrade_def)

lemma risk_quotient_nonneg: "risk_quotient gapPercent openingPrice = Fin r \<Longrightarrow> 0 \<le> r"
  unfolding risk_quotient_def maxLossPerTrade_value
  by (erule quotient_nonneg) simp

lemma Calculate_fields:
  "EntryPrice (Calculate oor g p) = round2 p"
  "StopLossPrice (Calculate oor g p) = round2 (raw_stopLoss g p)"
  "TakeProfitPrice (Calculate oor g p) = round2 (raw_takeProfit g p)"
  "Shares (Calculate oor g p) = int_of_f64 oor (risk_quotient g p)"
  "Profit (Calculate oor g p)
     = round2 (round2 (f64_mul (math_Abs (f64_sub p (raw_takeProfit g p)))
         (f64_of_int (int_of_f64 oor (risk_quotient g p)))))"
  by (simp_all add: Calculate_def Let_def round2_def raw_stopLoss_def raw_takeProfit_def
      raw_profitFromGap_def risk_quotient_def)

lemma Shares_floor:
  assumes "spec_floor (risk_quotient g p) = Some n" and "n < 2 ^ 63"
  shows "sint (Shares (Calculate oor g p)) = n"
  unfolding Calculate_fields
  using assms risk_quotient_nonneg by (rule int_of_f64_floor)

text \<open>
  C1 (amended). Whenever the quotient of step 5 is a finite float64 whose floor is below
  \<open>2^63\<close>, \<open>Calculate\<close> returns the plan of the specification's algorithm: the entry, stop-loss
  and take-profit prices are the specification's values rounded to 2 decimals, and the
  share count is the floor of the quotient computed on the unrounded values.
\<close>

theorem Calculate_refines_spec:
  assumes "spec_shareCount gapPercent openingPrice = Some n" and "n < 2 ^ 63"
  shows "EntryPrice (Calculate oor gapPercent openingPrice) = spec_round2 openingPrice
       \<and> StopLossPrice (Calculate oor gapPercent openingPrice)
           = spec_round2 (spec_stopLossPrice gapPercent openingPrice)
       \<and> TakeProfitPrice (Calculate oor gapPercent openingPrice)
           = spec_round2 (spec_takeProfitPrice gapPercent openingPrice)
       \<and> sint (Shares (Calculate oor gapPercent openingPrice)) = n"
proof -
  from assms(1) have "spec_floor (risk_quotient gapPercent openingPrice) = Some n"
    by (simp add: spec_shareCount_def spec_quotient_eq)
  then have "sint (Shares (Calculate oor gapPercent openingPrice)) = n"
    using assms(2) by (rule Shares_floor)
  moreover have "spec_stopLossPrice gapPercent openingPrice = raw_stopLoss gapPercent openingPrice"
    by (simp add: raw_stopLoss_def raw_profitFromGap_def spec_stopLossPrice_def
        spec_profitFromGap_def spec_gapValue_def spec_impliedPriorClose_def)
  moreover have "spec_takeProfitPrice gapPercent openingPrice
      = raw_takeProfit gapPercent openingPrice"
    by (simp add: raw_takeProfit_def raw_profitFromGap_def spec_takeProfitPrice_def
        spec_profitFromGap_def spec_gapValue_def spec_impliedPriorClose_def)
  ultimately show ?thesis
    by (simp add: Calculate_fields spec_round2_def round2_def)
qed

lemma spec_shareCount_scenario: "spec_shareCount (f64_lit (15 / 100)) (Fin 100) = Some 191"
proof -
  have "risk_quotient (f64_lit (15 / 100)) (Fin 100) = Fin (6743671317026131 / 35184372088832)"
    by (simp only: risk_quotient_def raw_stopLoss_def raw_profitFromGap_def scenario_steps)
  then show ?thesis
    by (simp add: spec_shareCount_def spec_quotient_eq floor_rat_numeral_div)
qed

theorem Calculate_refines_spec_witness:
  "spec_shareCount (f64_lit (15 / 100)) (Fin 100) = Some 191 \<and> (191 :: int) < 2 ^ 63
   \<and> EntryPrice (Calculate amd64_conv (f64_lit (15 / 100)) (Fin 100)) = spec_round2 (Fin 100)
   \<and> StopLossPrice (Calculate amd64_conv (f64_lit (15 / 100)) (Fin 100))
       = spec_round2 (spec_stopLossPrice (f64_lit (15 / 100)) (Fin 100))
   \<and> TakeProfitPrice (Calculate amd64_conv (f64_lit (15 / 100)) (Fin 100))
       = spec_round2 (spec_takeProfitPrice (f64_lit (15 / 100)) (Fin 100))
   \<and> sint (Shares (Calculate amd64_conv (f64_lit (15 / 100)) (Fin 100))) = 191"
proof -
  have small: "(191 :: int) < 2 ^ 63" by simp
  from Calculate_refines_spec [OF spec_shareCount_scenario small, of amd64_conv]
  show ?thesis using spec_shareCount_scenario by simp
qed

lemma spec_shareCount_tiny:
  "spec_shareCount (Fin 1) (f64_lit (1 / 10 ^ 18)) = Some 5000000000000000000000"
proof -
  have "risk_quotient (Fin 1) (f64_lit (1 / 10 ^ 18)) = Fin 5000000000000000000000"
    by (simp only: risk_quotient_def raw_stopLoss_def raw_profitFromGap_def
        profitPercent_value maxLossPerTrade_value t_o1 t_a1 t_cp t_gv t_pfg t_sl t_d1 t_q)
  then show ?thesis
    by (simp add: spec_shareCount_def spec_quotient_eq)
qed

theorem Calculate_refines_spec_counterexample:
  "spec_shareCount (Fin 1) (f64_lit (1 / 10 ^ 18)) = Some 5000000000000000000000
   \<and> sint (Shares (Calculate amd64_conv (Fin 1) (f64_lit (1 / 10 ^ 18))))
       \<noteq> 5000000000000000000000"
proof -
  have "sint (Shares (Calculate amd64_conv (Fin 1) (f64_lit (1 / 10 ^ 18)))) < 2 ^ 63"
    using sint_lt [of "Shares (Calculate amd64_conv (Fin 1) (f64_lit (1 / 10 ^ 18)))"] by simp
  then show ?thesis using spec_shareCount_tiny by simp
qed

lemma lit_11043: "f64_lit (11043 / 100) = Fin (1942705104884859 / 17592186044416)"
  by (simp add: f64_eval)

lemma lit_8957: "f64_lit (8957 / 100) = Fin (1575732103998341 / 17592186044416)"
  by (simp add: f64_eval)

lemma lit_199304: "f64_lit (199304 / 100) = Fin (2191370654622679 / 1099511627776)"
  by (simp add: f64_eval)

text \<open>
  C2 (amended). With the policy of the source, whose risk budget \<open>maxLossPerTrade\<close> is 2000,
  the candidate with gapPercent = 0.15 and openingPrice = 100 gets the stop-loss price
  110.43, the take-profit price 89.57, 191 shares and the expected profit 1993.04 (each
  price is the float64 nearest to the decimal).
\<close>

theorem Calculate_scenario_plan:
  "maxLossPerTrade = Fin 2000
   \<and> StopLossPrice (Calculate oor (f64_lit (15 / 100)) (Fin 100)) = f64_lit (11043 / 100)
   \<and> TakeProfitPrice (Calculate oor (f64_lit (15 / 100)) (Fin 100)) = f64_lit (8957 / 100)
   \<and> Shares (Calculate oor (f64_lit (15 / 100)) (Fin 100)) = 191
   \<and> Profit (Calculate oor (f64_lit (15 / 100)) (Fin 100)) = f64_lit (199304 / 100)"
  unfolding Calculate_scenario maxLossPerTrade_value lit_11043 lit_8957 lit_199304 by simp

theorem Calculate_scenario_plan_counterexample:
  "Profit (Calculate amd64_conv (f64_lit (15 / 100)) (Fin 100))
     = Fin (2191370654622679 / 1099511627776)
   \<and> \<not> \<bar>fval (Profit (Calculate amd64_conv (f64_lit (15 / 100)) (Fin 100))) - 199113 / 100\<bar>
         \<le> 1"
  unfolding Calculate_scenario by simp

text \<open>
  C3 (amended). In every plan \<open>Calculate\<close> returns, the expected profit is
  \<open>|openingPrice - takeProfit| * shares\<close> rounded to 2 decimals (twice), where \<open>takeProfit\<close>
  and \<open>openingPrice\<close> are the unrounded values; and the share count is the floor of
  \<open>maxRiskBudget / |stopLoss - openingPrice|\<close> over the unrounded values whenever that
  quotient is finite with a floor below \<open>2^63\<close>.
\<close>

theorem Calculate_plan_relations:
  "Profit (Calculate oor g p)
     = round2 (round2 (f64_mul (math_Abs (f64_sub p (raw_takeProfit g p)))
         (f64_of_int (Shares (Calculate oor g p)))))
   \<and> (spec_floor (risk_quotient g p) = Some n \<and> n < 2 ^ 63
        \<longrightarrow> sint (Shares (Calculate oor g p)) = n)"
  using Shares_floor [of g p n oor] by (simp add: Calculate_fields)

lemma risk_quotient_scenario:
  "risk_quotient (f64_lit (15 / 100)) (Fin 100) = Fin (6743671317026131 / 35184372088832)"
  by (simp only: risk_quotient_def raw_stopLoss_def raw_profitFromGap_def scenario_steps)

theorem Calculate_plan_relations_witness:
  "spec_floor (risk_quotient (f64_lit (15 / 100)) (Fin 100)) = Some 191 \<and> (191 :: int) < 2 ^ 63
   \<and> sint (Shares (Calculate amd64_conv (f64_lit (15 / 100)) (Fin 100))) = 191
   \<and> Profit (Calculate amd64_conv (f64_lit (15 / 100)) (Fin 100))
       = round2 (round2 (f64_mul
           (math_Abs (f64_sub (Fin 100) (raw_takeProfit (f64_lit (15 / 100)) (Fin 100))))
           (f64_of_int (Shares (Calculate amd64_conv (f64_lit (15 / 100)) (Fin 100))))))"
proof -
  have q: "spec_floor (risk_quotient (f64_lit (15 / 100)) (Fin 100)) = Some 191"
    unfolding risk_quotient_scenario by (simp add: floor_rat_numeral_div)
  from Calculate_plan_relations [of amd64_conv "f64_lit (15 / 100)" "Fin 100" 191] q
  show ?thesis by simp
qed

theorem plan_invariant_counterexample:
  "\<not> plan_invariant (Calculate amd64_conv (f64_lit (15 / 100)) (Fin 100))"
proof -
  have "spec_round2 (f64_mul (math_Abs (f64_sub (Fin 100)
            (Fin (1575732103998341 / 17592186044416)))) (f64_of_int 191))
      = Fin (2190370099041403 / 1099511627776)"
    by (simp only: spec_round2_def s_j1 s_j2 s_j3 s_j4 s_j5 s_fs)
  then show ?thesis
    unfolding plan_invariant_def Calculate_scenario by simp
qed

lemma rnd_zero: "rnd 0 = Fin 0"
  by (simp add: rnd_def)

lemma round2_special: "round2 PInf = PInf" "round2 NInf = NInf" "round2 NaN = NaN"
  by (simp_all add: round2_def f64_mul_def f64_div_def signed_inf_def)

text \<open>
  C10. For gapPercent = -1 (a gap that the filter keeps) and a finite positive opening
  price, the division of \<open>Calculate\<close> is a division by zero: the implied prior close is
  +Inf, and the plan has 0 shares, the take-profit price +Inf, the stop-loss price -Inf
  and the profit NaN.
\<close>

theorem Calculate_gap_minus_one:
  assumes "0 < r"
  shows "\<not> unworthy \<lparr> Ticker = t, Gap = Fin (- 1), OpeningPrice = Fin r \<rparr>
       \<and> f64_add (Fin 1) (Fin (- 1)) = Fin 0
       \<and> f64_div (Fin r) (f64_add (Fin 1) (Fin (- 1))) = PInf
       \<and> Shares (Calculate oor (Fin (- 1)) (Fin r)) = 0
       \<and> TakeProfitPrice (Calculate oor (Fin (- 1)) (Fin r)) = PInf
       \<and> StopLossPrice (Calculate oor (Fin (- 1)) (Fin r)) = NInf
       \<and> Profit (Calculate oor (Fin (- 1)) (Fin r)) = NaN"
proof -
  have kept: "\<not> unworthy \<lparr> Ticker = t, Gap = Fin (- 1), OpeningPrice = Fin r \<rparr>"
    by (simp add: unworthy_def k_threshold)
  have one: "f64_add (Fin 1) (Fin (- 1)) = Fin 0"
    by (simp add: f64_add_def rnd_zero)
  have cp: "f64_div (Fin r) (Fin 0) = PInf"
    using assms by (simp add: f64_div_def signed_inf_def)
  have gv: "f64_sub PInf (Fin r) = PInf"
    by (simp add: f64_sub_def f64_add_def)
  have mul: "f64_mul profitPercent PInf = PInf"
    by (simp add: f64_mul_def profitPercent_value signed_inf_def)
  have pfg: "raw_profitFromGap (Fin (- 1)) (Fin r) = PInf"
    unfolding raw_profitFromGap_def one cp gv mul by (rule refl)
  have sl: "raw_stopLoss (Fin (- 1)) (Fin r) = NInf"
    by (simp add: raw_stopLoss_def pfg f64_sub_def f64_add_def)
  have tp: "raw_takeProfit (Fin (- 1)) (Fin r) = PInf"
    by (simp add: raw_takeProfit_def pfg f64_add_def)
  have q: "risk_quotient (Fin (- 1)) (Fin r) = Fin 0"
    using assms
    by (simp add: risk_quotient_def sl f64_sub_def f64_add_def f64_div_def
        maxLossPerTrade_value signed_zero_def)
  have sh: "int_of_f64 oor (Fin 0) = 0"
    by (simp add: int_of_f64_def trunc_zero_def)
  have prod: "f64_mul (math_Abs (f64_sub (Fin r) PInf)) (f64_of_int 0) = NaN"
    by (simp add: f64_sub_def f64_add_def f64_mul_def f64_of_int_def rnd_zero)
  show ?thesis
    by (simp add: kept one cp Calculate_fields sl tp q sh prod round2_special)
qed

theorem Calculate_gap_minus_one_witness:
  "(0 :: rat) < 100
   \<and> \<not> unworthy \<lparr> Ticker = ''XYZ'', Gap = Fin (- 1), OpeningPrice = Fin 100 \<rparr>
   \<and> f64_div (Fin 100) (f64_add (Fin 1) (Fin (- 1))) = PInf
   \<and> Shares (Calculate amd64_conv (Fin (- 1)) (Fin 100)) = 0
   \<and> TakeProfitPrice (Calculate amd64_conv (Fin (- 1)) (Fin 100)) = PInf
   \<and> StopLossPrice (Calculate amd64_conv (Fin (- 1)) (Fin 100)) = NInf
   \<and> Profit (Calculate amd64_conv (Fin (- 1)) (Fin 100)) = NaN"
proof -
  have pos: "(0 :: rat) < 100" by simp
  from Calculate_gap_minus_one [OF pos, of "''XYZ''" amd64_conv] show ?thesis
    by (simp add: f64_div_def signed_inf_def)
qed

section \<open>The candidate filter\<close>

lemma not_f64_lt_iff: "y \<noteq> NaN \<Longrightarrow> (\<not> f64_lt x y) = (f64_ge x y \<or> x = NaN)"
  by (cases x; cases y) auto

lemma math_Abs_eq_NaN: "(math_Abs x = NaN) = (x = NaN)"
  by (cases x) simp_all

lemma not_unworthy_iff: "(\<not> unworthy s) = (gap_at_least_threshold s \<or> gap_is_NaN s)"
  by (simp add: unworthy_def gap_at_least_threshold_def gap_is_NaN_def k_threshold
      not_f64_lt_iff math_Abs_eq_NaN)

lemma count_list_filter: "count_list (filter P xs) x = (if P x then count_list xs x else 0)"
  by (induction xs) auto

text \<open>
  C7 (amended). For every sequence of rows the filter outputs exactly the order-preserving
  subsequence of the rows for which \<open>|gapPercent| < 0.10\<close> is false: every row with
  \<open>|gapPercent| < 0.10\<close> is excluded, and every other row, with \<open>|gapPercent| \<ge> 0.10\<close> (0.10
  itself included) or with a NaN gapPercent, is included as often as it occurs.
\<close>

theorem filter_stocks_subsequence:
  "filter_stocks rows = filter (\<lambda>s. gap_at_least_threshold s \<or> gap_is_NaN s) rows
   \<and> subseq (filter_stocks rows) rows
   \<and> (\<forall>s. unworthy s \<longrightarrow> s \<notin> set (filter_stocks rows))
   \<and> (\<forall>s. gap_at_least_threshold s \<or> gap_is_NaN s
          \<longrightarrow> count_list (filter_stocks rows) s = count_list rows s)"
proof -
  have eq: "filter_stocks rows = filter (\<lambda>s. gap_at_least_threshold s \<or> gap_is_NaN s) rows"
    by (simp add: filter_stocks_def slices_DeleteFunc_def not_unworthy_iff)
  have "\<forall>s. unworthy s \<longrightarrow> s \<notin> set (filter_stocks rows)"
    by (simp add: filter_stocks_def slices_DeleteFunc_def)
  moreover have "\<forall>s. gap_at_least_threshold s \<or> gap_is_NaN s
      \<longrightarrow> count_list (filter_stocks rows) s = count_list rows s"
    unfolding eq by (simp add: count_list_filter)
  moreover have "subseq (filter_stocks rows) rows"
    unfolding eq by simp
  ultimately show ?thesis using eq by simp
qed

lemma xyz_at_least_threshold: "gap_at_least_threshold xyz_stock"
  unfolding gap_at_least_threshold_def xyz_stock_def k_lit015 k_threshold by simp

lemma tenth_at_least_threshold:
  "gap_at_least_threshold \<lparr> Ticker = ''T'', Gap = f64_lit (1 / 10), OpeningPrice = Fin 1 \<rparr>"
  unfolding gap_at_least_threshold_def k_threshold by simp

theorem filter_stocks_subsequence_witness:
  "gap_at_least_threshold xyz_stock
   \<and> count_list (filter_stocks [nan_row, xyz_stock]) xyz_stock
       = count_list [nan_row, xyz_stock] xyz_stock
   \<and> subseq (filter_stocks [nan_row, xyz_stock]) [nan_row, xyz_stock]"
  using filter_stocks_subsequence [of "[nan_row, xyz_stock]"] xyz_at_least_threshold
  by blast

theorem filter_stocks_counterexample: "filter_stocks [nan_row] \<noteq> spec_filter [nan_row]"
  by (simp add: filter_stocks_def slices_DeleteFunc_def unworthy_def spec_filter_def
      gap_at_least_threshold_def nan_row_def)

section \<open>Loading\<close>

lemma load_rows_result:
  "load_rows pf rows stocks =
     (if \<exists>row \<in> set rows. bad_row pf row then Panic
      else Return (stocks @ List.map_filter (parse_row pf) rows))"
proof (induction rows arbitrary: stocks)
  case Nil
  show ?case by (simp add: List.map_filter_simps)
next
  case (Cons row rows)
  show ?case
  proof (cases "bad_row pf row")
    case True
    then show ?thesis by (auto simp: bad_row_def)
  next
    case False
    then have len: "2 \<le> length row" and two: "length row = 2 \<Longrightarrow> pf (row ! 1) = None"
      by (auto simp: bad_row_def)
    show ?thesis
    proof (cases "pf (row ! 1)")
      case None
      then have "parse_row pf row = None" by (simp add: parse_row_def)
      with None len False show ?thesis
        by (auto simp: Cons.IH List.map_filter_simps)
    next
      case (Some gap)
      with len two have three: "3 \<le> length row" by (cases "length row = 2") auto
      show ?thesis
      proof (cases "pf (row ! 2)")
        case None
        with Some have "parse_row pf row = None" by (simp add: parse_row_def)
        with None Some three False show ?thesis
          by (auto simp: Cons.IH List.map_filter_simps)
      next
        case (Some openingPrice)
        with \<open>pf (row ! 1) = Some gap\<close>
        have "parse_row pf row
            = Some \<lparr> Ticker = row ! 0, Gap = gap, OpeningPrice = openingPrice \<rparr>"
          by (simp add: parse_row_def)
        with Some \<open>pf (row ! 1) = Some gap\<close> three False show ?thesis
          by (auto simp: Cons.IH List.map_filter_simps)
      qed
    qed
  qed
qed

text \<open>
  C9 (amended). \<open>Load\<close> panics exactly when the row list is empty (deleting the header), or
  when some row after the header has fewer than 2 fields, or has exactly 2 fields and a
  second field that parses; otherwise it returns the parsed stock list and a nil error.
  In particular it does so when there is at least one row and every row has at least 3
  fields.
\<close>

theorem Load_panics_or_parses:
  "Load pf (Rows rows) =
     (if rows = [] \<or> (\<exists>row \<in> set (tl rows). bad_row pf row) then Panic
      else Return (Inr (List.map_filter (parse_row pf) (tl rows))))
   \<and> (rows \<noteq> [] \<and> (\<forall>row \<in> set rows. 3 \<le> length row)
        \<longrightarrow> Load pf (Rows rows) = Return (Inr (List.map_filter (parse_row pf) (tl rows))))"
proof -
  have del: "slices_Delete rows 0 1 = (if rows = [] then Panic else Return (tl rows))"
    by (cases rows) (simp_all add: slices_Delete_def)
  have eq: "Load pf (Rows rows) =
     (if rows = [] \<or> (\<exists>row \<in> set (tl rows). bad_row pf row) then Panic
      else Return (Inr (List.map_filter (parse_row pf) (tl rows))))"
    unfolding Load_def read_outcome.case del by (simp add: load_rows_result)
  moreover have "Load pf (Rows rows) = Return (Inr (List.map_filter (parse_row pf) (tl rows)))"
    if "rows \<noteq> []" and "\<forall>row \<in> set rows. 3 \<le> length row"
  proof -
    from that have "\<forall>row \<in> set (tl rows). \<not> bad_row pf row"
      by (cases rows) (auto simp: bad_row_def)
    with that(1) show ?thesis unfolding eq by simp
  qed
  ultimately show ?thesis by blast
qed

theorem Load_panics_or_parses_witness:
  "demo_rows \<noteq> [] \<and> list_all (\<lambda>row. 3 \<le> length row) demo_rows
   \<and> Load demo_ParseFloat (Rows demo_rows)
       = Return (Inr (List.map_filter (parse_row demo_ParseFloat) (tl demo_rows)))
   \<and> List.map_filter (parse_row demo_ParseFloat) (tl demo_rows) = [xyz_stock]
   \<and> Load demo_ParseFloat (Rows []) = Panic"
proof -
  have pre: "demo_rows \<noteq> [] \<and> (\<forall>row \<in> set demo_rows. 3 \<le> length row)"
    by (simp add: demo_rows_def)
  have parsed: "List.map_filter (parse_row demo_ParseFloat) (tl demo_rows) = [xyz_stock]"
    by (simp add: demo_rows_def List.map_filter_simps parse_row_def demo_ParseFloat_def
        xyz_stock_def)
  from Load_panics_or_parses [of demo_ParseFloat demo_rows, THEN conjunct2]
    Load_panics_or_parses [of demo_ParseFloat "[]", THEN conjunct1] pre parsed
  show ?thesis by (simp add: list_all_iff)
qed

theorem Load_precondition_counterexample:
  "Load demo_ParseFloat (Rows two_column_rows) = Return (Inr [])
   \<and> length (hd two_column_rows) < 3 \<and> length (last two_column_rows) < 3"
  by (simp add: Load_def slices_Delete_def two_column_rows_def demo_ParseFloat_def)

section \<open>The collection loop and the run\<close>

lemma collect_all:
  assumes "length selections + length pending = n" and "pending \<noteq> []"
  shows "collect n pending False selections = Done (selections @ pending)"
  using assms
proof (induction pending arbitrary: selections)
  case Nil
  then show ?case by simp
next
  case (Cons sel pending)
  show ?case
  proof (cases "pending = []")
    case True
    with Cons.prems show ?thesis by simp
  next
    case False
    from Cons.prems have "length (selections @ [sel]) + length pending = n" by simp
    from Cons.IH [OF this False] have
      "collect n pending False (selections @ [sel]) = Done (selections @ sel # pending)"
      by simp
    moreover from Cons.prems False have "length (selections @ [sel]) \<noteq> n"
      by (cases pending) auto
    ultimately show ?thesis by simp
  qed
qed

lemma collect_none: "collect 0 [] False [] = Deadlock"
  by simp

lemma main_fan_out_delivers:
  assumes "stocks \<noteq> []"
    and "mset (arrival w (map (task (conv w) (http w)) stocks))
         = mset (map (task (conv w) (http w)) stocks)"
  shows "main_fan_out w stocks
     = main_deliver w (concat (map fst (arrival w (map (task (conv w) (http w)) stocks))))
         (map snd (arrival w (map (task (conv w) (http w)) stocks)))"
proof -
  let ?arrived = "arrival w (map (task (conv w) (http w)) stocks)"
  from assms(2) have "size (mset ?arrived) = size (mset (map (task (conv w) (http w)) stocks))"
    by simp
  then have len: "length ?arrived = length stocks" by simp
  with assms(1) have ne: "map snd ?arrived \<noteq> []" by auto
  from len have "length ([] :: Selection list) + length (map snd ?arrived) = length stocks"
    by simp
  from collect_all [OF this ne] show ?thesis
    by (simp add: main_fan_out_def Let_def)
qed

lemma delivered_main_deliver:
  "delivered (main_deliver w printed selections)
     = Some (selections, Deliver (fs w) outputPath selections)"
  by (simp add: main_deliver_def split: option.split)

lemma task_lines_subset:
  assumes "mset arrived = mset (map (task oor env) stocks)" and "s \<in> set stocks"
  shows "set (task_lines env s) \<subseteq> set (concat (map fst arrived))"
proof -
  from assms(2) have "task oor env s \<in> set (map (task oor env) stocks)" by simp
  with assms(1) have "task oor env s \<in> set arrived" by (metis set_mset_mset)
  then have "fst (task oor env s) \<in> set (map fst arrived)" by force
  then show ?thesis by (auto simp: task_def)
qed

lemma stdout_main_deliver: "set printed \<subseteq> set (stdout (main_deliver w printed selections))"
  by (auto simp: main_deliver_def split: option.split)

text \<open>
  C5. A candidate that enters the fan-out and whose news lookup returns an error does
  not abort the batch: \<open>Deliver\<close> is called, its batch holds one selection for each
  candidate (as a multiset, the selections of the candidates), the selection of the
  failed candidate has an empty news list, and the failure is printed.
\<close>

theorem failed_lookup_keeps_candidate:
  assumes "Load (ParseFloat w) (opg_csv w) = Return (Inr stocks)"
    and "s \<in> set (filter_stocks stocks)"
    and "FetchNews (http w) (Ticker s) = Inl e"
    and "mset (arrival w (map (task (conv w) (http w)) (filter_stocks stocks)))
         = mset (map (task (conv w) (http w)) (filter_stocks stocks))"
  shows "\<exists>batch r. delivered (main_go w) = Some (batch, r)
       \<and> mset batch = image_mset (task_selection (conv w) (http w)) (mset (filter_stocks stocks))
       \<and> length batch = length (filter_stocks stocks)
       \<and> task_selection (conv w) (http w) s
           = \<lparr> SelTicker = Ticker s,
               SelPosition = Calculate (conv w) (Gap s) (OpeningPrice s),
               Articles = [] \<rparr>
       \<and> task_selection (conv w) (http w) s \<in> set batch
       \<and> ErrorLoadingNews (Ticker s) e \<in> set (stdout (main_go w))"
proof -
  let ?tasks = "map (task (conv w) (http w)) (filter_stocks stocks)"
  let ?arrived = "arrival w ?tasks"
  let ?batch = "map snd ?arrived"
  from assms(2) have ne: "filter_stocks stocks \<noteq> []" by auto
  have run: "main_go w = main_deliver w (concat (map fst ?arrived)) ?batch"
    using main_fan_out_delivers [OF ne assms(4)] by (simp add: main_go_def assms(1))
  have "mset ?batch = image_mset snd (mset ?arrived)" by simp
  also have "\<dots> = image_mset snd (mset ?tasks)" by (simp only: assms(4))
  also have "\<dots> = image_mset (task_selection (conv w) (http w)) (mset (filter_stocks stocks))"
    by (simp add: task_def image_mset.compositionality comp_def)
  finally have batch: "mset ?batch
      = image_mset (task_selection (conv w) (http w)) (mset (filter_stocks stocks))" .
  then have "size (mset ?batch) = size (mset (filter_stocks stocks))" by simp
  then have len: "length ?batch = length (filter_stocks stocks)" by simp
  have sel: "task_selection (conv w) (http w) s
      = \<lparr> SelTicker = Ticker s, SelPosition = Calculate (conv w) (Gap s) (OpeningPrice s),
          Articles = [] \<rparr>"
    by (simp add: task_selection_def task_articles_def assms(3))
  from assms(2) batch have mem: "task_selection (conv w) (http w) s \<in> set ?batch"
    by (metis image_eqI in_image_mset set_mset_mset)
  have "ErrorLoadingNews (Ticker s) e \<in> set (task_lines (http w) s)"
    by (simp add: task_lines_def assms(3))
  with task_lines_subset [OF assms(4) assms(2)]
  have "ErrorLoadingNews (Ticker s) e \<in> set (concat (map fst ?arrived))" by blast
  with stdout_main_deliver [of "concat (map fst ?arrived)" w ?batch]
  have out: "ErrorLoadingNews (Ticker s) e \<in> set (stdout (main_go w))"
    unfolding run by blast
  have "delivered (main_go w) = Some (?batch, Deliver (fs w) outputPath ?batch)"
    unfolding run by (rule delivered_main_deliver)
  with batch len sel mem out show ?thesis by blast
qed

lemma Load_demo: "Load demo_ParseFloat (Rows demo_rows) = Return (Inr [xyz_stock])"
  by (simp add: Load_def slices_Delete_def demo_rows_def demo_ParseFloat_def xyz_stock_def)

lemma filter_xyz: "filter_stocks [xyz_stock] = [xyz_stock]"
  unfolding filter_stocks_def slices_DeleteFunc_def unworthy_def xyz_stock_def k_lit015
    k_threshold
  by simp

lemma FetchNews_failing:
  "FetchNews failing_http ''XYZ'' = Inl (ExternalError ''connection refused'')"
  by (simp add: FetchNews_def failing_http_def)

lemma main_go_demo:
  "main_go demo_world
     = \<lparr> stdout = [ErrorLoadingNews ''XYZ'' (ExternalError ''connection refused''),
                   FoundArticles 0 ''XYZ'',
                   ErrorWritingOutput (CreatingFile (ExternalError ''permission denied''))],
         status = 0,
         delivered = Some ([task_selection amd64_conv failing_http xyz_stock],
                           Some (CreatingFile (ExternalError ''permission denied''))) \<rparr>"
proof -
  have ticker: "Ticker xyz_stock = ''XYZ''" by (simp add: xyz_stock_def)
  have lines: "task_lines failing_http xyz_stock
      = [ErrorLoadingNews ''XYZ'' (ExternalError ''connection refused''),
         FoundArticles 0 ''XYZ'']"
    by (simp add: task_lines_def task_articles_def ticker FetchNews_failing)
  have deliver: "Deliver failing_fs outputPath sels
      = Some (CreatingFile (ExternalError ''permission denied''))" for sels
    by (simp add: Deliver_def failing_fs_def)
  show ?thesis
    by (simp add: main_go_def demo_world_def Load_demo filter_xyz main_fan_out_def Let_def
        task_def lines main_deliver_def deliver)
qed

theorem failed_lookup_keeps_candidate_witness:
  "Load (ParseFloat demo_world) (opg_csv demo_world) = Return (Inr [xyz_stock])
   \<and> xyz_stock \<in> set (filter_stocks [xyz_stock])
   \<and> FetchNews (http demo_world) (Ticker xyz_stock) = Inl (ExternalError ''connection refused'')
   \<and> (\<exists>batch r. delivered (main_go demo_world) = Some (batch, r)
        \<and> length batch = length (filter_stocks [xyz_stock])
        \<and> task_selection (conv demo_world) (http demo_world) xyz_stock
            = \<lparr> SelTicker = Ticker xyz_stock,
                SelPosition = Calculate (conv demo_world) (Gap xyz_stock) (OpeningPrice xyz_stock),
                Articles = [] \<rparr>
        \<and> task_selection (conv demo_world) (http demo_world) xyz_stock \<in> set batch
        \<and> ErrorLoadingNews (Ticker xyz_stock) (ExternalError ''connection refused'')
            \<in> set (stdout (main_go demo_world)))"
proof -
  have h1: "Load (ParseFloat demo_world) (opg_csv demo_world) = Return (Inr [xyz_stock])"
    by (simp add: demo_world_def Load_demo)
  have h2: "xyz_stock \<in> set (filter_stocks [xyz_stock])"
    by (simp add: filter_xyz)
  have h3: "FetchNews (http demo_world) (Ticker xyz_stock)
      = Inl (ExternalError ''connection refused'')"
    by (simp add: demo_world_def xyz_stock_def FetchNews_failing)
  have h4: "mset (arrival demo_world
        (map (task (conv demo_world) (http demo_world)) (filter_stocks [xyz_stock])))
      = mset (map (task (conv demo_world) (http demo_world)) (filter_stocks [xyz_stock]))"
    by (simp add: demo_world_def)
  from failed_lookup_keeps_candidate [OF h1 h2 h3 h4] h1 h2 h3 show ?thesis by blast
qed

lemma task_lines_no_success: "FinishedWriting p \<notin> set (task_lines env s)"
  by (simp add: task_lines_def split: sum.split)

lemma printed_no_success:
  assumes "mset arrived = mset (map (task oor env) stocks)"
  shows "FinishedWriting p \<notin> set (concat (map fst arrived))"
proof
  assume "FinishedWriting p \<in> set (concat (map fst arrived))"
  then obtain x where x: "x \<in> set arrived" and mem: "FinishedWriting p \<in> set (fst x)"
    by auto
  from assms have "set arrived = set (map (task oor env) stocks)" by (rule mset_eq_setD)
  with x obtain s where "x = task oor env s" by auto
  with mem have "FinishedWriting p \<in> set (task_lines env s)" by (simp add: task_def)
  with task_lines_no_success show False by blast
qed

text \<open>
  C8 (amended). When \<open>Deliver\<close> fails, the failure is printed as the last line of the run,
  nothing is printed after it, and \<open>main\<close> returns: the exit status of the process is 0.
  The success message is not printed, the values on the channel being a rearrangement of
  what the goroutines sent.
\<close>

theorem failed_delivery_is_reported:
  assumes "delivered (main_go w) = Some (batch, Some e)"
  shows "status (main_go w) = 0 \<and> stdout (main_go w) \<noteq> []
       \<and> last (stdout (main_go w)) = ErrorWritingOutput e
       \<and> ((\<forall>xs. mset (arrival w xs) = mset xs)
            \<longrightarrow> FinishedWriting outputPath \<notin> set (stdout (main_go w)))"
proof -
  have step: "status (main_deliver w printed sels) = 0
      \<and> stdout (main_deliver w printed sels) \<noteq> []
      \<and> last (stdout (main_deliver w printed sels)) = ErrorWritingOutput e
      \<and> stdout (main_deliver w printed sels) = printed @ [ErrorWritingOutput e]"
    if "delivered (main_deliver w printed sels) = Some (batch, Some e)" for printed sels
    using that by (simp add: main_deliver_def split: option.splits)
  from assms have first: "status (main_go w) = 0 \<and> stdout (main_go w) \<noteq> []
       \<and> last (stdout (main_go w)) = ErrorWritingOutput e"
    by (auto simp: main_go_def main_fan_out_def Let_def step
        split: outcome.splits sum.splits collected.splits)
  have "FinishedWriting outputPath \<notin> set (stdout (main_go w))"
    if perm: "\<forall>xs. mset (arrival w xs) = mset xs"
  proof -
    from assms obtain stocks where load: "Load (ParseFloat w) (opg_csv w) = Return (Inr stocks)"
      by (auto simp: main_go_def split: outcome.splits sum.splits)
    let ?fs = "filter_stocks stocks"
    let ?arrived = "arrival w (map (task (conv w) (http w)) ?fs)"
    let ?printed = "concat (map fst ?arrived)"
    from perm have arr: "mset ?arrived = mset (map (task (conv w) (http w)) ?fs)" by blast
    from assms load obtain sels where
      d: "delivered (main_deliver w ?printed sels) = Some (batch, Some e)"
      and run: "main_go w = main_deliver w ?printed sels"
      by (auto simp: main_go_def main_fan_out_def Let_def split: collected.splits)
    from step [OF d] have "stdout (main_go w) = ?printed @ [ErrorWritingOutput e]"
      unfolding run by simp
    with printed_no_success [OF arr, of outputPath] show ?thesis by simp
  qed
  with first show ?thesis by blast
qed

theorem failed_delivery_is_reported_witness:
  "delivered (main_go demo_world)
     = Some ([task_selection amd64_conv failing_http xyz_stock],
             Some (CreatingFile (ExternalError ''permission denied'')))
   \<and> status (main_go demo_world) = 0 \<and> stdout (main_go demo_world) \<noteq> []
   \<and> last (stdout (main_go demo_world))
       = ErrorWritingOutput (CreatingFile (ExternalError ''permission denied''))
   \<and> FinishedWriting outputPath \<notin> set (stdout (main_go demo_world))"
proof -
  have h: "delivered (main_go demo_world)
      = Some ([task_selection amd64_conv failing_http xyz_stock],
              Some (CreatingFile (ExternalError ''permission denied'')))"
    by (simp add: main_go_demo)
  have perm: "\<forall>xs. mset (arrival demo_world xs) = mset xs"
    by (simp add: demo_world_def)
  from failed_delivery_is_reported [OF h] h perm show ?thesis by blast
qed

theorem failed_delivery_counterexample:
  "snd (the (delivered (main_go demo_world)))
     = Some (CreatingFile (ExternalError ''permission denied''))
   \<and> \<not> status (main_go demo_world) \<noteq> 0"
  by (simp add: main_go_demo)

text \<open>
  C4 at the input with no candidate after the filter: no value is ever sent, the channel
  is never closed, the loop blocks for ever; \<open>Deliver\<close> is not reached and the runtime
  stops the program with exit status 2.
\<close>

theorem no_candidate_deadlocks:
  "Load (ParseFloat quiet_world) (opg_csv quiet_world) = Return (Inr [abc_stock])
   \<and> filter_stocks [abc_stock] = []
   \<and> collect 0 [] False [] = Deadlock
   \<and> main_go quiet_world = \<lparr> stdout = [], status = 2, delivered = None \<rparr>"
proof -
  have load: "Load demo_ParseFloat (Rows quiet_rows) = Return (Inr [abc_stock])"
    by (simp add: Load_def slices_Delete_def quiet_rows_def demo_ParseFloat_def abc_stock_def)
  have none: "filter_stocks [abc_stock] = []"
    unfolding filter_stocks_def slices_DeleteFunc_def unworthy_def abc_stock_def k_lit005
      k_threshold
    by simp
  show ?thesis
    by (simp add: none main_go_def quiet_world_def load main_fan_out_def)
qed

text \<open>
  C6 at a response with a success status and an undecodable body: the error of \<open>Decode\<close>
  is dropped, \<open>FetchNews\<close> returns an empty list and no error, and nothing is logged.
\<close>

theorem malformed_body_is_no_error:
  "snd (json_Decode malformed_http (Body malformed_response))
     = Some (ExternalError ''invalid character'')
   \<and> FetchNews malformed_http ''XYZ'' = Inr []
   \<and> task_lines malformed_http xyz_stock = [FoundArticles 0 ''XYZ'']"
proof -
  have fetch: "FetchNews malformed_http ''XYZ'' = Inr []"
    by (simp add: FetchNews_def malformed_http_def malformed_response_def demo_Decode_def)
  have "Ticker xyz_stock = ''XYZ''" by (simp add: xyz_stock_def)
  with fetch show ?thesis
    by (simp add: task_lines_def task_articles_def malformed_http_def malformed_response_def
        demo_Decode_def)
qed

lemma FetchNews_error_cases:
  "(\<exists>e. FetchNews env ticker = Inl e)
     = (http_NewRequest env (url env @ ticker) \<noteq> None
        \<or> (\<exists>e. client_Do env (url env @ ticker) (apiKeyHeader env, apiKey env) = Inl e)
        \<or> (\<exists>resp. client_Do env (url env @ ticker) (apiKeyHeader env, apiKey env) = Inr resp
             \<and> (StatusCode resp < 200 \<or> StatusCode resp > 299)))"
  by (auto simp: FetchNews_def split: option.splits sum.splits)

end
